theory Spec2Isabelle
  imports Main "HOL-Library.Word"
begin

section \<open>Values crossing the boundary\<close>

text \<open>
  The driver of \<^verbatim>\<open>src/src/sqlite.c\<close> sits between the operand stack of the Quadrate
  runtime and the SQLite engine. Machine integers keep their widths: a stack integer is an
  \<^verbatim>\<open>int64_t\<close>, the engine's \<^verbatim>\<open>int\<close> parameters and results are 32 bits wide. A
  \<^verbatim>\<open>double\<close> is never computed with, only carried, so it is its 64-bit IEEE pattern
  (\<open>0.0\<close> is the all-zero pattern). A pointer is an address, \<open>0\<close> being \<^verbatim>\<open>NULL\<close>.
  Result codes of the engine and of the primitives are only ever compared with constants
  and are plain integers.
\<close>

type_synonym i64 = "64 word"
type_synonym c_int = "32 word"
type_synonym f64 = "64 word"
type_synonym ptr = nat

text \<open>The tagged union \<^verbatim>\<open>qd_stack_element_t\<close>: the tag \<^verbatim>\<open>type\<close> with the member of
  \<^verbatim>\<open>value\<close> it selects (\<^verbatim>\<open>QD_STACK_TYPE_INT\<close> with \<^verbatim>\<open>value.i\<close>, and so on).\<close>

datatype qd_stack_element =
    QD_INT i64
  | QD_FLOAT f64
  | QD_STR string
  | QD_PTR ptr

text \<open>The error codes \<^verbatim>\<open>#define\<close>d at the top of \<^verbatim>\<open>sqlite.c\<close>.\<close>

abbreviation SQLITE_ERR_OK :: int where "SQLITE_ERR_OK \<equiv> 1"
abbreviation SQLITE_ERR_OPEN :: int where "SQLITE_ERR_OPEN \<equiv> 2"
abbreviation SQLITE_ERR_EXEC :: int where "SQLITE_ERR_EXEC \<equiv> 3"
abbreviation SQLITE_ERR_PREPARE :: int where "SQLITE_ERR_PREPARE \<equiv> 4"
abbreviation SQLITE_ERR_BIND :: int where "SQLITE_ERR_BIND \<equiv> 5"
abbreviation SQLITE_ERR_STEP :: int where "SQLITE_ERR_STEP \<equiv> 6"
abbreviation SQLITE_ERR_INVALID_ARG :: int where "SQLITE_ERR_INVALID_ARG \<equiv> 7"

text \<open>The three result codes of \<^verbatim>\<open>sqlite3.h\<close> the driver tests for.\<close>

abbreviation SQLITE_OK :: int where "SQLITE_OK \<equiv> 0"
abbreviation SQLITE_ROW :: int where "SQLITE_ROW \<equiv> 100"
abbreviation SQLITE_DONE :: int where "SQLITE_DONE \<equiv> 101"

section \<open>The engine and the allocator\<close>

text \<open>
  The SQLite engine and the C allocator are outside the driver. What they answer is a
  parameter of every primitive: one field per function the driver calls, giving the
  function's result from its arguments. A primitive calls each of them at most once, so an
  answer per argument tuple is all an invocation can observe. An out-parameter is returned
  beside the result code (\<^verbatim>\<open>sqlite3_open\<close> gives the code and \<^verbatim>\<open>*ppDb\<close>,
  \<^verbatim>\<open>sqlite3_exec\<close> the code and \<^verbatim>\<open>*errmsg\<close>, \<open>None\<close> for \<^verbatim>\<open>NULL\<close>); a
  \<^verbatim>\<open>const char*\<close> result that may be \<^verbatim>\<open>NULL\<close> is a \<open>string option\<close>.
  \<^verbatim>\<open>sqlite3_reset\<close>, \<^verbatim>\<open>sqlite3_clear_bindings\<close>, \<^verbatim>\<open>sqlite3_close\<close> and
  \<^verbatim>\<open>sqlite3_finalize\<close> return a result code too; the driver calls them as
  statements and never reads it.
  \<open>heap_ok\<close> says whether \<^verbatim>\<open>malloc\<close> and \<^verbatim>\<open>strdup\<close> succeed, and
  \<open>qd_string_ok\<close> whether \<^verbatim>\<open>qd_string_create_with_length\<close> does.
\<close>

record native_engine =
  sqlite3_open :: "string \<Rightarrow> int \<times> ptr"
  sqlite3_errmsg :: "ptr \<Rightarrow> string"
  sqlite3_exec :: "ptr \<Rightarrow> string \<Rightarrow> int \<times> string option"
  sqlite3_prepare_v2 :: "ptr \<Rightarrow> string \<Rightarrow> int \<times> ptr"
  sqlite3_bind_text :: "ptr \<Rightarrow> c_int \<Rightarrow> string \<Rightarrow> c_int \<Rightarrow> int"
  sqlite3_bind_int64 :: "ptr \<Rightarrow> c_int \<Rightarrow> i64 \<Rightarrow> int"
  sqlite3_bind_double :: "ptr \<Rightarrow> c_int \<Rightarrow> f64 \<Rightarrow> int"
  sqlite3_bind_null :: "ptr \<Rightarrow> c_int \<Rightarrow> int"
  sqlite3_step :: "ptr \<Rightarrow> int"
  sqlite3_column_count :: "ptr \<Rightarrow> c_int"
  sqlite3_column_name :: "ptr \<Rightarrow> c_int \<Rightarrow> string option"
  sqlite3_column_type :: "ptr \<Rightarrow> c_int \<Rightarrow> c_int"
  sqlite3_column_int64 :: "ptr \<Rightarrow> c_int \<Rightarrow> i64"
  sqlite3_column_double :: "ptr \<Rightarrow> c_int \<Rightarrow> f64"
  sqlite3_column_text :: "ptr \<Rightarrow> c_int \<Rightarrow> string option"
  sqlite3_column_bytes :: "ptr \<Rightarrow> c_int \<Rightarrow> c_int"
  sqlite3_last_insert_rowid :: "ptr \<Rightarrow> i64"
  sqlite3_changes :: "ptr \<Rightarrow> c_int"
  sqlite3_reset :: "ptr \<Rightarrow> int"
  sqlite3_clear_bindings :: "ptr \<Rightarrow> int"
  sqlite3_close :: "ptr \<Rightarrow> int"
  sqlite3_finalize :: "ptr \<Rightarrow> int"
  heap_ok :: bool
  qd_string_ok :: bool

text \<open>Every call into the engine is written to a log, the latest call last, so that
  "no native call" is a statement about the log. The arguments are the ones the C call
  receives.\<close>

datatype native_call =
    Call_open string
  | Call_close ptr
  | Call_errmsg ptr
  | Call_exec ptr string
  | Call_free
  | Call_prepare_v2 ptr string
  | Call_bind_text ptr c_int string c_int
  | Call_bind_int64 ptr c_int i64
  | Call_bind_double ptr c_int f64
  | Call_bind_null ptr c_int
  | Call_step ptr
  | Call_reset ptr
  | Call_clear_bindings ptr
  | Call_finalize ptr
  | Call_column_count ptr
  | Call_column_name ptr c_int
  | Call_column_type ptr c_int
  | Call_column_int64 ptr c_int
  | Call_column_double ptr c_int
  | Call_column_text ptr c_int
  | Call_column_bytes ptr c_int
  | Call_last_insert_rowid ptr
  | Call_changes ptr

section \<open>The invocation context\<close>

text \<open>
  \<^verbatim>\<open>qd_context\<close>: the operand stack \<^verbatim>\<open>st\<close> (the head of the list is the top) and
  the Error Context \<^verbatim>\<open>error_code\<close>, \<^verbatim>\<open>error_msg\<close> (\<open>None\<close> for \<^verbatim>\<open>NULL\<close>).
  \<open>native_log\<close> is the log of engine calls, a ghost field.
\<close>

record qd_context =
  st :: "qd_stack_element list"
  error_code :: int
  error_msg :: "string option"
  native_log :: "native_call list"

text \<open>Modelled from the spec: the stack of the host runtime (\<^verbatim>\<open>qdrt/stack.h\<close>,
  \<^verbatim>\<open>qdrt/runtime.h\<close>) is not part of the sources. Section 6 of the specification gives
  its interface: a pop that reports an error on an empty stack (and then removes
  nothing), otherwise hands out the top element whatever its kind, and typed pushes. The
  specification names no bound on the stack, so a push always succeeds.\<close>

definition qd_stack_pop :: "qd_context \<Rightarrow> (qd_stack_element \<times> qd_context) option" where
  "qd_stack_pop ctx =
     (case st ctx of [] \<Rightarrow> None | e # s \<Rightarrow> Some (e, ctx\<lparr>st := s\<rparr>))"

definition qd_push_i :: "qd_context \<Rightarrow> i64 \<Rightarrow> qd_context" where
  "qd_push_i ctx v = ctx\<lparr>st := QD_INT v # st ctx\<rparr>"

definition qd_push_f :: "qd_context \<Rightarrow> f64 \<Rightarrow> qd_context" where
  "qd_push_f ctx v = ctx\<lparr>st := QD_FLOAT v # st ctx\<rparr>"

definition qd_push_s :: "qd_context \<Rightarrow> string \<Rightarrow> qd_context" where
  "qd_push_s ctx v = ctx\<lparr>st := QD_STR v # st ctx\<rparr>"

definition qd_push_p :: "qd_context \<Rightarrow> ptr \<Rightarrow> qd_context" where
  "qd_push_p ctx v = ctx\<lparr>st := QD_PTR v # st ctx\<rparr>"

text \<open>Every primitive reads an operand with the same two lines,
  \<^verbatim>\<open>err = qd_stack_pop(ctx->st, &e); if (err != QD_STACK_OK || e.type != QD_STACK_TYPE_X)\<close>.
  The four functions below are that pair for the four kinds: \<open>None\<close> when the test of
  the \<^verbatim>\<open>if\<close> holds, the member of \<^verbatim>\<open>e.value\<close> otherwise, beside the context after
  the pop. An element of the wrong kind has been taken off the stack by then.\<close>

definition pop_ptr :: "qd_context \<Rightarrow> ptr option \<times> qd_context" where
  "pop_ptr ctx =
     (case qd_stack_pop ctx of
        None \<Rightarrow> (None, ctx)
      | Some (e, c) \<Rightarrow> (case e of QD_PTR p \<Rightarrow> (Some p, c) | _ \<Rightarrow> (None, c)))"

definition pop_int :: "qd_context \<Rightarrow> i64 option \<times> qd_context" where
  "pop_int ctx =
     (case qd_stack_pop ctx of
        None \<Rightarrow> (None, ctx)
      | Some (e, c) \<Rightarrow> (case e of QD_INT i \<Rightarrow> (Some i, c) | _ \<Rightarrow> (None, c)))"

definition pop_float :: "qd_context \<Rightarrow> f64 option \<times> qd_context" where
  "pop_float ctx =
     (case qd_stack_pop ctx of
        None \<Rightarrow> (None, ctx)
      | Some (e, c) \<Rightarrow> (case e of QD_FLOAT f \<Rightarrow> (Some f, c) | _ \<Rightarrow> (None, c)))"

definition pop_str :: "qd_context \<Rightarrow> string option \<times> qd_context" where
  "pop_str ctx =
     (case qd_stack_pop ctx of
        None \<Rightarrow> (None, ctx)
      | Some (e, c) \<Rightarrow> (case e of QD_STR s \<Rightarrow> (Some s, c) | _ \<Rightarrow> (None, c)))"

definition log_call :: "native_call \<Rightarrow> qd_context \<Rightarrow> qd_context" where
  "log_call k ctx = ctx\<lparr>native_log := native_log ctx @ [k]\<rparr>"

section \<open>Error plumbing\<close>

text \<open>\<^verbatim>\<open>strdup\<close>, and \<^verbatim>\<open>malloc\<close> followed by \<^verbatim>\<open>snprintf\<close> into a buffer of exactly
  the length of the text and its terminator: a copy of the text, or \<^verbatim>\<open>NULL\<close>.\<close>

definition heap_copy :: "native_engine \<Rightarrow> string \<Rightarrow> string option" where
  "heap_copy env msg = (if heap_ok env then Some msg else None)"

text \<open>\<^verbatim>\<open>set_error_msg\<close>: the old message is freed and replaced by a copy of
  \<^verbatim>\<open>msg\<close>.\<close>

definition set_error_msg :: "native_engine \<Rightarrow> qd_context \<Rightarrow> string \<Rightarrow> qd_context" where
  "set_error_msg env ctx msg = ctx\<lparr>error_msg := heap_copy env msg\<rparr>"

text \<open>\<^verbatim>\<open>set_sqlite_error\<close>: the text is \<^verbatim>\<open>sqlite3_errmsg(db)\<close>, or
  \<^verbatim>\<open>"unknown error"\<close> for a null \<^verbatim>\<open>db\<close>; the buffer of
  \<^verbatim>\<open>strlen(prefix) + strlen(sqlite_msg) + 3\<close> bytes holds \<^verbatim>\<open>"%s: %s"\<close> whole.\<close>

definition set_sqlite_error :: "native_engine \<Rightarrow> qd_context \<Rightarrow> string \<Rightarrow> ptr \<Rightarrow> qd_context" where
  "set_sqlite_error env ctx prefix db =
     (let (sqlite_msg, c) =
            (if db \<noteq> 0 then (sqlite3_errmsg env db, log_call (Call_errmsg db) ctx)
             else (''unknown error'', ctx))
      in c\<lparr>error_msg := heap_copy env (prefix @ '': '' @ sqlite_msg)\<rparr>)"

text \<open>The failure branch shared, text for text, by \<^verbatim>\<open>usr_sqlite_exec\<close>,
  \<^verbatim>\<open>usr_sqlite_begin\<close>, \<^verbatim>\<open>usr_sqlite_commit\<close> and \<^verbatim>\<open>usr_sqlite_rollback\<close>: with an
  \<^verbatim>\<open>errmsg\<close> from the engine the message is the prefix followed by it, and the engine's
  buffer is handed to \<^verbatim>\<open>sqlite3_free\<close>; without one it is a fixed text.\<close>

definition set_exec_error ::
  "native_engine \<Rightarrow> qd_context \<Rightarrow> string \<Rightarrow> string \<Rightarrow> string option \<Rightarrow> qd_context" where
  "set_exec_error env ctx prefix fallback errmsg =
     (case errmsg of
        Some m \<Rightarrow> log_call Call_free (ctx\<lparr>error_msg := heap_copy env (prefix @ m)\<rparr>)
      | None \<Rightarrow> ctx\<lparr>error_msg := heap_copy env fallback\<rparr>)"

text \<open>The three lines every strict primitive runs on an operand of the wrong kind:
  \<^verbatim>\<open>set_error_msg(ctx, msg); ctx->error_code = SQLITE_ERR_INVALID_ARG;
  return SQLITE_ERR_INVALID_ARG;\<close>\<close>

definition invalid_arg :: "native_engine \<Rightarrow> qd_context \<Rightarrow> string \<Rightarrow> int \<times> qd_context" where
  "invalid_arg env ctx msg =
     (SQLITE_ERR_INVALID_ARG, (set_error_msg env ctx msg)\<lparr>error_code := SQLITE_ERR_INVALID_ARG\<rparr>)"

section \<open>The primitives\<close>

text \<open>Each primitive takes the engine's answers and the context, and returns its C return
  value with the context it leaves. \<^verbatim>\<open>qd_string_release\<close> only gives a reference back
  and has no counterpart here. A runtime string reaches the engine as the bytes it holds
  (\<^verbatim>\<open>qd_string_data\<close>), and a text from the engine is taken to hold no NUL.\<close>

definition usr_sqlite_open :: "native_engine \<Rightarrow> qd_context \<Rightarrow> int \<times> qd_context" where
  "usr_sqlite_open env ctx =
     (case pop_str ctx of
        (None, c) \<Rightarrow> invalid_arg env c ''sqlite::open: expected string path''
      | (Some path, c) \<Rightarrow>
          (let (rc, db) = sqlite3_open env path;
               c = log_call (Call_open path) c
           in if rc \<noteq> SQLITE_OK then
                (let c = set_sqlite_error env c ''sqlite::open'' db;
                     c = c\<lparr>error_code := SQLITE_ERR_OPEN\<rparr>;
                     c = (if db \<noteq> 0 then log_call (Call_close db) c else c)
                 in (SQLITE_ERR_OPEN, c))
              else (0, qd_push_i (qd_push_p c db) (of_int SQLITE_ERR_OK))))"

definition usr_sqlite_close :: "native_engine \<Rightarrow> qd_context \<Rightarrow> int \<times> qd_context" where
  "usr_sqlite_close env ctx =
     (case pop_ptr ctx of
        (None, c) \<Rightarrow> (0, set_error_msg env c ''sqlite::close: expected pointer'')
      | (Some db, c) \<Rightarrow> (0, if db \<noteq> 0 then log_call (Call_close db) c else c))"

definition usr_sqlite_exec :: "native_engine \<Rightarrow> qd_context \<Rightarrow> int \<times> qd_context" where
  "usr_sqlite_exec env ctx =
     (case pop_ptr ctx of
        (None, c) \<Rightarrow> invalid_arg env c ''sqlite::exec: expected database pointer''
      | (Some db, c) \<Rightarrow>
          (case pop_str c of
             (None, c) \<Rightarrow> invalid_arg env c ''sqlite::exec: expected SQL string''
           | (Some sql, c) \<Rightarrow>
               (let (rc, errmsg) = sqlite3_exec env db sql;
                    c = log_call (Call_exec db sql) c
                in if rc \<noteq> SQLITE_OK then
                     (SQLITE_ERR_EXEC,
                      (set_exec_error env c ''sqlite::exec: '' ''sqlite::exec: execution failed'' errmsg)
                        \<lparr>error_code := SQLITE_ERR_EXEC\<rparr>)
                   else (0, qd_push_i c (of_int SQLITE_ERR_OK)))))"

definition usr_sqlite_prepare :: "native_engine \<Rightarrow> qd_context \<Rightarrow> int \<times> qd_context" where
  "usr_sqlite_prepare env ctx =
     (case pop_ptr ctx of
        (None, c) \<Rightarrow> invalid_arg env c ''sqlite::prepare: expected database pointer''
      | (Some db, c) \<Rightarrow>
          (case pop_str c of
             (None, c) \<Rightarrow> invalid_arg env c ''sqlite::prepare: expected SQL string''
           | (Some sql, c) \<Rightarrow>
               (let (rc, stmt) = sqlite3_prepare_v2 env db sql;
                    c = log_call (Call_prepare_v2 db sql) c
                in if rc \<noteq> SQLITE_OK then
                     (SQLITE_ERR_PREPARE,
                      (set_sqlite_error env c ''sqlite::prepare'' db)\<lparr>error_code := SQLITE_ERR_PREPARE\<rparr>)
                   else (0, qd_push_i (qd_push_p c stmt) (of_int SQLITE_ERR_OK)))))"

text \<open>The three binders read the statement, then the index, then the value;
  \<^verbatim>\<open>(int)index_elem.value.i\<close> keeps the low 32 bits of the index and
  \<^verbatim>\<open>(int)len\<close> those of the length.\<close>

definition usr_sqlite_bind_text :: "native_engine \<Rightarrow> qd_context \<Rightarrow> int \<times> qd_context" where
  "usr_sqlite_bind_text env ctx =
     (case pop_ptr ctx of
        (None, c) \<Rightarrow> invalid_arg env c ''sqlite::bind_text: expected statement pointer''
      | (Some stmt, c) \<Rightarrow>
          (case pop_int c of
             (None, c) \<Rightarrow> invalid_arg env c ''sqlite::bind_text: expected integer index''
           | (Some i, c) \<Rightarrow>
               (case pop_str c of
                  (None, c) \<Rightarrow> invalid_arg env c ''sqlite::bind_text: expected string value''
                | (Some v, c) \<Rightarrow>
                    (let index = (ucast i :: c_int);
                         len = (of_nat (length v) :: c_int);
                         rc = sqlite3_bind_text env stmt index v len;
                         c = log_call (Call_bind_text stmt index v len) c
                     in if rc \<noteq> SQLITE_OK then
                          (SQLITE_ERR_BIND,
                           (set_error_msg env c ''sqlite::bind_text: bind failed'')
                             \<lparr>error_code := SQLITE_ERR_BIND\<rparr>)
                        else (0, qd_push_i c (of_int SQLITE_ERR_OK))))))"

definition usr_sqlite_bind_int :: "native_engine \<Rightarrow> qd_context \<Rightarrow> int \<times> qd_context" where
  "usr_sqlite_bind_int env ctx =
     (case pop_ptr ctx of
        (None, c) \<Rightarrow> invalid_arg env c ''sqlite::bind_int: expected statement pointer''
      | (Some stmt, c) \<Rightarrow>
          (case pop_int c of
             (None, c) \<Rightarrow> invalid_arg env c ''sqlite::bind_int: expected integer index''
           | (Some i, c) \<Rightarrow>
               (case pop_int c of
                  (None, c) \<Rightarrow> invalid_arg env c ''sqlite::bind_int: expected integer value''
                | (Some v, c) \<Rightarrow>
                    (let index = (ucast i :: c_int);
                         rc = sqlite3_bind_int64 env stmt index v;
                         c = log_call (Call_bind_int64 stmt index v) c
                     in if rc \<noteq> SQLITE_OK then
                          (SQLITE_ERR_BIND,
                           (set_error_msg env c ''sqlite::bind_int: bind failed'')
                             \<lparr>error_code := SQLITE_ERR_BIND\<rparr>)
                        else (0, qd_push_i c (of_int SQLITE_ERR_OK))))))"

definition usr_sqlite_bind_float :: "native_engine \<Rightarrow> qd_context \<Rightarrow> int \<times> qd_context" where
  "usr_sqlite_bind_float env ctx =
     (case pop_ptr ctx of
        (None, c) \<Rightarrow> invalid_arg env c ''sqlite::bind_float: expected statement pointer''
      | (Some stmt, c) \<Rightarrow>
          (case pop_int c of
             (None, c) \<Rightarrow> invalid_arg env c ''sqlite::bind_float: expected integer index''
           | (Some i, c) \<Rightarrow>
               (case pop_float c of
                  (None, c) \<Rightarrow> invalid_arg env c ''sqlite::bind_float: expected float value''
                | (Some v, c) \<Rightarrow>
                    (let index = (ucast i :: c_int);
                         rc = sqlite3_bind_double env stmt index v;
                         c = log_call (Call_bind_double stmt index v) c
                     in if rc \<noteq> SQLITE_OK then
                          (SQLITE_ERR_BIND,
                           (set_error_msg env c ''sqlite::bind_float: bind failed'')
                             \<lparr>error_code := SQLITE_ERR_BIND\<rparr>)
                        else (0, qd_push_i c (of_int SQLITE_ERR_OK))))))"

definition usr_sqlite_bind_null :: "native_engine \<Rightarrow> qd_context \<Rightarrow> int \<times> qd_context" where
  "usr_sqlite_bind_null env ctx =
     (case pop_ptr ctx of
        (None, c) \<Rightarrow> invalid_arg env c ''sqlite::bind_null: expected statement pointer''
      | (Some stmt, c) \<Rightarrow>
          (case pop_int c of
             (None, c) \<Rightarrow> invalid_arg env c ''sqlite::bind_null: expected integer index''
           | (Some i, c) \<Rightarrow>
               (let index = (ucast i :: c_int);
                    rc = sqlite3_bind_null env stmt index;
                    c = log_call (Call_bind_null stmt index) c
                in if rc \<noteq> SQLITE_OK then
                     (SQLITE_ERR_BIND,
                      (set_error_msg env c ''sqlite::bind_null: bind failed'')
                        \<lparr>error_code := SQLITE_ERR_BIND\<rparr>)
                   else (0, qd_push_i c (of_int SQLITE_ERR_OK)))))"

definition usr_sqlite_step :: "native_engine \<Rightarrow> qd_context \<Rightarrow> int \<times> qd_context" where
  "usr_sqlite_step env ctx =
     (case pop_ptr ctx of
        (None, c) \<Rightarrow> invalid_arg env c ''sqlite::step: expected statement pointer''
      | (Some stmt, c) \<Rightarrow>
          (let rc = sqlite3_step env stmt;
               c = log_call (Call_step stmt) c
           in if rc = SQLITE_ROW then
                (0, qd_push_i (qd_push_i c 1) (of_int SQLITE_ERR_OK))
              else if rc = SQLITE_DONE then
                (0, qd_push_i (qd_push_i c 0) (of_int SQLITE_ERR_OK))
              else
                (SQLITE_ERR_STEP,
                 (set_error_msg env c ''sqlite::step: execution failed'')
                   \<lparr>error_code := SQLITE_ERR_STEP\<rparr>)))"

text \<open>\<^verbatim>\<open>usr_sqlite_reset\<close> drops the results of both engine calls: whatever
  \<^verbatim>\<open>sqlite3_reset\<close> and \<^verbatim>\<open>sqlite3_clear_bindings\<close> answer, it returns \<open>0\<close>
  and pushes \<^verbatim>\<open>OK\<close>.\<close>

definition usr_sqlite_reset :: "native_engine \<Rightarrow> qd_context \<Rightarrow> int \<times> qd_context" where
  "usr_sqlite_reset env ctx =
     (case pop_ptr ctx of
        (None, c) \<Rightarrow> invalid_arg env c ''sqlite::reset: expected statement pointer''
      | (Some stmt, c) \<Rightarrow>
          (let c = log_call (Call_reset stmt) c;
               c = log_call (Call_clear_bindings stmt) c
           in (0, qd_push_i c (of_int SQLITE_ERR_OK))))"

definition usr_sqlite_finalize :: "native_engine \<Rightarrow> qd_context \<Rightarrow> int \<times> qd_context" where
  "usr_sqlite_finalize env ctx =
     (case pop_ptr ctx of
        (None, c) \<Rightarrow> (0, c)
      | (Some stmt, c) \<Rightarrow> (0, if stmt \<noteq> 0 then log_call (Call_finalize stmt) c else c))"

text \<open>The accessors. A result of type \<^verbatim>\<open>int\<close> is widened to the stack's
  \<^verbatim>\<open>int64_t\<close> with its sign.\<close>

definition usr_sqlite_column_count :: "native_engine \<Rightarrow> qd_context \<Rightarrow> int \<times> qd_context" where
  "usr_sqlite_column_count env ctx =
     (case pop_ptr ctx of
        (None, c) \<Rightarrow> (0, qd_push_i c 0)
      | (Some stmt, c) \<Rightarrow>
          (let count = sqlite3_column_count env stmt;
               c = log_call (Call_column_count stmt) c
           in (0, qd_push_i c (scast count))))"

definition usr_sqlite_column_name :: "native_engine \<Rightarrow> qd_context \<Rightarrow> int \<times> qd_context" where
  "usr_sqlite_column_name env ctx =
     (case pop_ptr ctx of
        (None, c) \<Rightarrow> (0, qd_push_s c [])
      | (Some stmt, c) \<Rightarrow>
          (case pop_int c of
             (None, c) \<Rightarrow> (0, qd_push_s c [])
           | (Some i, c) \<Rightarrow>
               (let index = (ucast i :: c_int);
                    name = sqlite3_column_name env stmt index;
                    c = log_call (Call_column_name stmt index) c
                in (0, qd_push_s c (case name of Some n \<Rightarrow> n | None \<Rightarrow> [])))))"

definition usr_sqlite_column_type :: "native_engine \<Rightarrow> qd_context \<Rightarrow> int \<times> qd_context" where
  "usr_sqlite_column_type env ctx =
     (case pop_ptr ctx of
        (None, c) \<Rightarrow> (0, qd_push_i c 0)
      | (Some stmt, c) \<Rightarrow>
          (case pop_int c of
             (None, c) \<Rightarrow> (0, qd_push_i c 0)
           | (Some i, c) \<Rightarrow>
               (let index = (ucast i :: c_int);
                    ty = sqlite3_column_type env stmt index;
                    c = log_call (Call_column_type stmt index) c
                in (0, qd_push_i c (scast ty)))))"

definition usr_sqlite_column_int :: "native_engine \<Rightarrow> qd_context \<Rightarrow> int \<times> qd_context" where
  "usr_sqlite_column_int env ctx =
     (case pop_ptr ctx of
        (None, c) \<Rightarrow> (0, qd_push_i c 0)
      | (Some stmt, c) \<Rightarrow>
          (case pop_int c of
             (None, c) \<Rightarrow> (0, qd_push_i c 0)
           | (Some i, c) \<Rightarrow>
               (let index = (ucast i :: c_int);
                    v = sqlite3_column_int64 env stmt index;
                    c = log_call (Call_column_int64 stmt index) c
                in (0, qd_push_i c v))))"

definition usr_sqlite_column_float :: "native_engine \<Rightarrow> qd_context \<Rightarrow> int \<times> qd_context" where
  "usr_sqlite_column_float env ctx =
     (case pop_ptr ctx of
        (None, c) \<Rightarrow> (0, qd_push_f c 0)
      | (Some stmt, c) \<Rightarrow>
          (case pop_int c of
             (None, c) \<Rightarrow> (0, qd_push_f c 0)
           | (Some i, c) \<Rightarrow>
               (let index = (ucast i :: c_int);
                    v = sqlite3_column_double env stmt index;
                    c = log_call (Call_column_double stmt index) c
                in (0, qd_push_f c v))))"

text \<open>\<^verbatim>\<open>usr_sqlite_column_text\<close> copies \<^verbatim>\<open>len\<close> bytes of the engine's buffer into a
  runtime string when the buffer is there and \<^verbatim>\<open>len > 0\<close> (a signed test), and pushes
  the empty string otherwise, or when the runtime string cannot be made. The engine's
  buffer holds at least \<^verbatim>\<open>len\<close> bytes, so \<open>take\<close> never runs short on a buffer the
  engine really hands out.\<close>

definition usr_sqlite_column_text :: "native_engine \<Rightarrow> qd_context \<Rightarrow> int \<times> qd_context" where
  "usr_sqlite_column_text env ctx =
     (case pop_ptr ctx of
        (None, c) \<Rightarrow> (0, qd_push_s c [])
      | (Some stmt, c) \<Rightarrow>
          (case pop_int c of
             (None, c) \<Rightarrow> (0, qd_push_s c [])
           | (Some i, c) \<Rightarrow>
               (let index = (ucast i :: c_int);
                    txt = sqlite3_column_text env stmt index;
                    c = log_call (Call_column_text stmt index) c;
                    len = sqlite3_column_bytes env stmt index;
                    c = log_call (Call_column_bytes stmt index) c
                in case txt of
                     Some t \<Rightarrow>
                       (if 0 < sint len then
                          (if qd_string_ok env then (0, qd_push_s c (take (unat len) t))
                           else (0, qd_push_s c []))
                        else (0, qd_push_s c []))
                   | None \<Rightarrow> (0, qd_push_s c []))))"

definition usr_sqlite_last_insert_rowid :: "native_engine \<Rightarrow> qd_context \<Rightarrow> int \<times> qd_context" where
  "usr_sqlite_last_insert_rowid env ctx =
     (case pop_ptr ctx of
        (None, c) \<Rightarrow> (0, qd_push_i c 0)
      | (Some db, c) \<Rightarrow>
          (let rowid = sqlite3_last_insert_rowid env db;
               c = log_call (Call_last_insert_rowid db) c
           in (0, qd_push_i c rowid)))"

definition usr_sqlite_changes :: "native_engine \<Rightarrow> qd_context \<Rightarrow> int \<times> qd_context" where
  "usr_sqlite_changes env ctx =
     (case pop_ptr ctx of
        (None, c) \<Rightarrow> (0, qd_push_i c 0)
      | (Some db, c) \<Rightarrow>
          (let changes = sqlite3_changes env db;
               c = log_call (Call_changes db) c
           in (0, qd_push_i c (scast changes))))"

text \<open>The transaction primitives run a fixed statement through \<^verbatim>\<open>sqlite3_exec\<close>.\<close>

definition usr_sqlite_begin :: "native_engine \<Rightarrow> qd_context \<Rightarrow> int \<times> qd_context" where
  "usr_sqlite_begin env ctx =
     (case pop_ptr ctx of
        (None, c) \<Rightarrow> invalid_arg env c ''sqlite::begin: expected database pointer''
      | (Some db, c) \<Rightarrow>
          (let (rc, errmsg) = sqlite3_exec env db ''BEGIN TRANSACTION'';
               c = log_call (Call_exec db ''BEGIN TRANSACTION'') c
           in if rc \<noteq> SQLITE_OK then
                (SQLITE_ERR_EXEC,
                 (set_exec_error env c ''sqlite::begin: '' ''sqlite::begin: failed'' errmsg)
                   \<lparr>error_code := SQLITE_ERR_EXEC\<rparr>)
              else (0, qd_push_i c (of_int SQLITE_ERR_OK))))"

definition usr_sqlite_commit :: "native_engine \<Rightarrow> qd_context \<Rightarrow> int \<times> qd_context" where
  "usr_sqlite_commit env ctx =
     (case pop_ptr ctx of
        (None, c) \<Rightarrow> invalid_arg env c ''sqlite::commit: expected database pointer''
      | (Some db, c) \<Rightarrow>
          (let (rc, errmsg) = sqlite3_exec env db ''COMMIT'';
               c = log_call (Call_exec db ''COMMIT'') c
           in if rc \<noteq> SQLITE_OK then
                (SQLITE_ERR_EXEC,
                 (set_exec_error env c ''sqlite::commit: '' ''sqlite::commit: failed'' errmsg)
                   \<lparr>error_code := SQLITE_ERR_EXEC\<rparr>)
              else (0, qd_push_i c (of_int SQLITE_ERR_OK))))"

definition usr_sqlite_rollback :: "native_engine \<Rightarrow> qd_context \<Rightarrow> int \<times> qd_context" where
  "usr_sqlite_rollback env ctx =
     (case pop_ptr ctx of
        (None, c) \<Rightarrow> invalid_arg env c ''sqlite::rollback: expected database pointer''
      | (Some db, c) \<Rightarrow>
          (let (rc, errmsg) = sqlite3_exec env db ''ROLLBACK'';
               c = log_call (Call_exec db ''ROLLBACK'') c
           in if rc \<noteq> SQLITE_OK then
                (SQLITE_ERR_EXEC,
                 (set_exec_error env c ''sqlite::rollback: '' ''sqlite::rollback: failed'' errmsg)
                   \<lparr>error_code := SQLITE_ERR_EXEC\<rparr>)
              else (0, qd_push_i c (of_int SQLITE_ERR_OK))))"

section \<open>The table of primitives\<close>

text \<open>The primitives declared in \<^verbatim>\<open>include/qdsqlite/sqlite.h\<close>, and the one entry
  point that runs each.\<close>

datatype primitive =
    Open | Close | Exec | Prepare
  | Bind_text | Bind_int | Bind_float | Bind_null
  | Step | Reset | Finalize
  | Column_count | Column_name | Column_type | Column_int | Column_float | Column_text
  | Last_insert_rowid | Changes
  | Begin | Commit | Rollback

fun usr_sqlite :: "primitive \<Rightarrow> native_engine \<Rightarrow> qd_context \<Rightarrow> int \<times> qd_context" where
  "usr_sqlite Open = usr_sqlite_open"
| "usr_sqlite Close = usr_sqlite_close"
| "usr_sqlite Exec = usr_sqlite_exec"
| "usr_sqlite Prepare = usr_sqlite_prepare"
| "usr_sqlite Bind_text = usr_sqlite_bind_text"
| "usr_sqlite Bind_int = usr_sqlite_bind_int"
| "usr_sqlite Bind_float = usr_sqlite_bind_float"
| "usr_sqlite Bind_null = usr_sqlite_bind_null"
| "usr_sqlite Step = usr_sqlite_step"
| "usr_sqlite Reset = usr_sqlite_reset"
| "usr_sqlite Finalize = usr_sqlite_finalize"
| "usr_sqlite Column_count = usr_sqlite_column_count"
| "usr_sqlite Column_name = usr_sqlite_column_name"
| "usr_sqlite Column_type = usr_sqlite_column_type"
| "usr_sqlite Column_int = usr_sqlite_column_int"
| "usr_sqlite Column_float = usr_sqlite_column_float"
| "usr_sqlite Column_text = usr_sqlite_column_text"
| "usr_sqlite Last_insert_rowid = usr_sqlite_last_insert_rowid"
| "usr_sqlite Changes = usr_sqlite_changes"
| "usr_sqlite Begin = usr_sqlite_begin"
| "usr_sqlite Commit = usr_sqlite_commit"
| "usr_sqlite Rollback = usr_sqlite_rollback"

text \<open>The stack signatures as the header documents them, \<^verbatim>\<open>Stack: (inputs -- outputs)\<close>
  with a trailing \<^verbatim>\<open>!\<close> for a fallible primitive: the kinds of the inputs left to right
  (the rightmost is the top of the stack), the kinds of the outputs, and the mark.\<close>

datatype kind = I64 | F64 | Str | Ptr

fun kind_of :: "qd_stack_element \<Rightarrow> kind" where
  "kind_of (QD_INT _) = I64"
| "kind_of (QD_FLOAT _) = F64"
| "kind_of (QD_STR _) = Str"
| "kind_of (QD_PTR _) = Ptr"

fun stack_inputs :: "primitive \<Rightarrow> kind list" where
  "stack_inputs Open = [Str]"
| "stack_inputs Close = [Ptr]"
| "stack_inputs Exec = [Str, Ptr]"
| "stack_inputs Prepare = [Str, Ptr]"
| "stack_inputs Bind_text = [Str, I64, Ptr]"
| "stack_inputs Bind_int = [I64, I64, Ptr]"
| "stack_inputs Bind_float = [F64, I64, Ptr]"
| "stack_inputs Bind_null = [I64, Ptr]"
| "stack_inputs Step = [Ptr]"
| "stack_inputs Reset = [Ptr]"
| "stack_inputs Finalize = [Ptr]"
| "stack_inputs Column_count = [Ptr]"
| "stack_inputs Column_name = [I64, Ptr]"
| "stack_inputs Column_type = [I64, Ptr]"
| "stack_inputs Column_int = [I64, Ptr]"
| "stack_inputs Column_float = [I64, Ptr]"
| "stack_inputs Column_text = [I64, Ptr]"
| "stack_inputs Last_insert_rowid = [Ptr]"
| "stack_inputs Changes = [Ptr]"
| "stack_inputs Begin = [Ptr]"
| "stack_inputs Commit = [Ptr]"
| "stack_inputs Rollback = [Ptr]"

fun stack_outputs :: "primitive \<Rightarrow> kind list" where
  "stack_outputs Open = [Ptr]"
| "stack_outputs Prepare = [Ptr]"
| "stack_outputs Step = [I64]"
| "stack_outputs Column_count = [I64]"
| "stack_outputs Column_name = [Str]"
| "stack_outputs Column_type = [I64]"
| "stack_outputs Column_int = [I64]"
| "stack_outputs Column_float = [F64]"
| "stack_outputs Column_text = [Str]"
| "stack_outputs Last_insert_rowid = [I64]"
| "stack_outputs Changes = [I64]"
| "stack_outputs _ = []"

fun fallible :: "primitive \<Rightarrow> bool" where
  "fallible Close = False"
| "fallible Finalize = False"
| "fallible Column_count = False"
| "fallible Column_name = False"
| "fallible Column_type = False"
| "fallible Column_int = False"
| "fallible Column_float = False"
| "fallible Column_text = False"
| "fallible Last_insert_rowid = False"
| "fallible Changes = False"
| "fallible _ = True"

text \<open>The name a primitive uses for itself in its messages.\<close>

fun prim_name :: "primitive \<Rightarrow> string" where
  "prim_name Open = ''open''"
| "prim_name Close = ''close''"
| "prim_name Exec = ''exec''"
| "prim_name Prepare = ''prepare''"
| "prim_name Bind_text = ''bind_text''"
| "prim_name Bind_int = ''bind_int''"
| "prim_name Bind_float = ''bind_float''"
| "prim_name Bind_null = ''bind_null''"
| "prim_name Step = ''step''"
| "prim_name Reset = ''reset''"
| "prim_name Finalize = ''finalize''"
| "prim_name Column_count = ''column_count''"
| "prim_name Column_name = ''column_name''"
| "prim_name Column_type = ''column_type''"
| "prim_name Column_int = ''column_int''"
| "prim_name Column_float = ''column_float''"
| "prim_name Column_text = ''column_text''"
| "prim_name Last_insert_rowid = ''last_insert_rowid''"
| "prim_name Changes = ''changes''"
| "prim_name Begin = ''begin''"
| "prim_name Commit = ''commit''"
| "prim_name Rollback = ''rollback''"

text \<open>Reading a stack against a signature in pop order (the rightmost input first): the
  position, counted from the top, of the first operand that is missing or of another
  kind, if there is one. Such an operand is a transport-level failure.\<close>

fun first_mismatch :: "kind list \<Rightarrow> qd_stack_element list \<Rightarrow> nat option" where
  "first_mismatch [] s = None"
| "first_mismatch (k # ks) [] = Some 0"
| "first_mismatch (k # ks) (e # s) =
     (if kind_of e = k then map_option Suc (first_mismatch ks s) else Some 0)"

definition pop_order :: "primitive \<Rightarrow> kind list" where
  "pop_order p = rev (stack_inputs p)"

definition transport_failure :: "primitive \<Rightarrow> qd_stack_element list \<Rightarrow> nat option" where
  "transport_failure p s = first_mismatch (pop_order p) s"

text \<open>How many elements an invocation takes off the stack: all its inputs when they
  match, otherwise those up to and including the first operand of another kind (on an
  exhausted stack there are fewer to take, and \<open>drop\<close> stops at the bottom).\<close>

definition popped :: "primitive \<Rightarrow> qd_stack_element list \<Rightarrow> nat" where
  "popped p s =
     (case transport_failure p s of None \<Rightarrow> length (stack_inputs p) | Some k \<Rightarrow> Suc k)"

text \<open>What a strict primitive says it expected at position \<open>k\<close> of its pop order.\<close>

definition expected_operand :: "primitive \<Rightarrow> nat \<Rightarrow> string" where
  "expected_operand p k =
     (case p of
        Open \<Rightarrow> ''string path''
      | Exec \<Rightarrow> (if k = 0 then ''database pointer'' else ''SQL string'')
      | Prepare \<Rightarrow> (if k = 0 then ''database pointer'' else ''SQL string'')
      | Bind_text \<Rightarrow>
          (if k = 0 then ''statement pointer'' else if k = 1 then ''integer index''
           else ''string value'')
      | Bind_int \<Rightarrow>
          (if k = 0 then ''statement pointer'' else if k = 1 then ''integer index''
           else ''integer value'')
      | Bind_float \<Rightarrow>
          (if k = 0 then ''statement pointer'' else if k = 1 then ''integer index''
           else ''float value'')
      | Bind_null \<Rightarrow> (if k = 0 then ''statement pointer'' else ''integer index'')
      | Step \<Rightarrow> ''statement pointer''
      | Reset \<Rightarrow> ''statement pointer''
      | Begin \<Rightarrow> ''database pointer''
      | Commit \<Rightarrow> ''database pointer''
      | Rollback \<Rightarrow> ''database pointer''
      | _ \<Rightarrow> [])"

text \<open>The engine reports failure: the result code of the one engine call whose code the
  primitive tests, on the operands at the top of the stack, is not a success code
  (\<^verbatim>\<open>SQLITE_OK\<close>; for a step \<^verbatim>\<open>SQLITE_ROW\<close> or \<^verbatim>\<open>SQLITE_DONE\<close>).\<close>

definition native_failure :: "primitive \<Rightarrow> native_engine \<Rightarrow> qd_stack_element list \<Rightarrow> bool" where
  "native_failure p env s =
     (case p of
        Open \<Rightarrow>
          (case s of QD_STR path # _ \<Rightarrow> fst (sqlite3_open env path) \<noteq> SQLITE_OK | _ \<Rightarrow> False)
      | Exec \<Rightarrow>
          (case s of QD_PTR db # QD_STR sql # _ \<Rightarrow> fst (sqlite3_exec env db sql) \<noteq> SQLITE_OK
           | _ \<Rightarrow> False)
      | Prepare \<Rightarrow>
          (case s of QD_PTR db # QD_STR sql # _ \<Rightarrow> fst (sqlite3_prepare_v2 env db sql) \<noteq> SQLITE_OK
           | _ \<Rightarrow> False)
      | Bind_text \<Rightarrow>
          (case s of QD_PTR stmt # QD_INT i # QD_STR v # _ \<Rightarrow>
             sqlite3_bind_text env stmt (ucast i) v (of_nat (length v)) \<noteq> SQLITE_OK
           | _ \<Rightarrow> False)
      | Bind_int \<Rightarrow>
          (case s of QD_PTR stmt # QD_INT i # QD_INT v # _ \<Rightarrow>
             sqlite3_bind_int64 env stmt (ucast i) v \<noteq> SQLITE_OK
           | _ \<Rightarrow> False)
      | Bind_float \<Rightarrow>
          (case s of QD_PTR stmt # QD_INT i # QD_FLOAT v # _ \<Rightarrow>
             sqlite3_bind_double env stmt (ucast i) v \<noteq> SQLITE_OK
           | _ \<Rightarrow> False)
      | Bind_null \<Rightarrow>
          (case s of QD_PTR stmt # QD_INT i # _ \<Rightarrow>
             sqlite3_bind_null env stmt (ucast i) \<noteq> SQLITE_OK
           | _ \<Rightarrow> False)
      | Step \<Rightarrow>
          (case s of QD_PTR stmt # _ \<Rightarrow>
             sqlite3_step env stmt \<noteq> SQLITE_ROW \<and> sqlite3_step env stmt \<noteq> SQLITE_DONE
           | _ \<Rightarrow> False)
      | Begin \<Rightarrow>
          (case s of QD_PTR db # _ \<Rightarrow> fst (sqlite3_exec env db ''BEGIN TRANSACTION'') \<noteq> SQLITE_OK
           | _ \<Rightarrow> False)
      | Commit \<Rightarrow>
          (case s of QD_PTR db # _ \<Rightarrow> fst (sqlite3_exec env db ''COMMIT'') \<noteq> SQLITE_OK
           | _ \<Rightarrow> False)
      | Rollback \<Rightarrow>
          (case s of QD_PTR db # _ \<Rightarrow> fst (sqlite3_exec env db ''ROLLBACK'') \<noteq> SQLITE_OK
           | _ \<Rightarrow> False)
      | _ \<Rightarrow> False)"

text \<open>The operation-specific code of section 6 of the specification; the transaction
  primitives share \<^verbatim>\<open>EXEC_ERROR\<close>. A primitive that tests no engine result has none.\<close>

definition native_code :: "primitive \<Rightarrow> int" where
  "native_code p =
     (case p of
        Open \<Rightarrow> SQLITE_ERR_OPEN
      | Exec \<Rightarrow> SQLITE_ERR_EXEC
      | Begin \<Rightarrow> SQLITE_ERR_EXEC
      | Commit \<Rightarrow> SQLITE_ERR_EXEC
      | Rollback \<Rightarrow> SQLITE_ERR_EXEC
      | Prepare \<Rightarrow> SQLITE_ERR_PREPARE
      | Bind_text \<Rightarrow> SQLITE_ERR_BIND
      | Bind_int \<Rightarrow> SQLITE_ERR_BIND
      | Bind_float \<Rightarrow> SQLITE_ERR_BIND
      | Bind_null \<Rightarrow> SQLITE_ERR_BIND
      | Step \<Rightarrow> SQLITE_ERR_STEP
      | _ \<Rightarrow> 0)"

text \<open>The text that follows \<^verbatim>\<open>"sqlite::<name>: "\<close> in the message of a native-tier
  failure. Only for four groups of primitives does it come from the engine: the
  connection's \<^verbatim>\<open>sqlite3_errmsg\<close> for an open or a prepare (with a fixed text when
  there is no connection), the \<^verbatim>\<open>errmsg\<close> out-parameter for an exec and the
  transaction primitives (with a fixed text when the engine gave none). The binders and
  the step have a fixed text.\<close>

definition failure_text :: "primitive \<Rightarrow> native_engine \<Rightarrow> qd_stack_element list \<Rightarrow> string" where
  "failure_text p env s =
     (case p of
        Open \<Rightarrow>
          (case s of QD_STR path # _ \<Rightarrow>
             (let db = snd (sqlite3_open env path)
              in if db \<noteq> 0 then sqlite3_errmsg env db else ''unknown error'')
           | _ \<Rightarrow> [])
      | Prepare \<Rightarrow>
          (case s of QD_PTR db # _ \<Rightarrow>
             (if db \<noteq> 0 then sqlite3_errmsg env db else ''unknown error'')
           | _ \<Rightarrow> [])
      | Exec \<Rightarrow>
          (case s of QD_PTR db # QD_STR sql # _ \<Rightarrow>
             (case snd (sqlite3_exec env db sql) of Some m \<Rightarrow> m | None \<Rightarrow> ''execution failed'')
           | _ \<Rightarrow> [])
      | Begin \<Rightarrow>
          (case s of QD_PTR db # _ \<Rightarrow>
             (case snd (sqlite3_exec env db ''BEGIN TRANSACTION'') of
                Some m \<Rightarrow> m | None \<Rightarrow> ''failed'')
           | _ \<Rightarrow> [])
      | Commit \<Rightarrow>
          (case s of QD_PTR db # _ \<Rightarrow>
             (case snd (sqlite3_exec env db ''COMMIT'') of Some m \<Rightarrow> m | None \<Rightarrow> ''failed'')
           | _ \<Rightarrow> [])
      | Rollback \<Rightarrow>
          (case s of QD_PTR db # _ \<Rightarrow>
             (case snd (sqlite3_exec env db ''ROLLBACK'') of Some m \<Rightarrow> m | None \<Rightarrow> ''failed'')
           | _ \<Rightarrow> [])
      | Bind_text \<Rightarrow> ''bind failed''
      | Bind_int \<Rightarrow> ''bind failed''
      | Bind_float \<Rightarrow> ''bind failed''
      | Bind_null \<Rightarrow> ''bind failed''
      | Step \<Rightarrow> ''execution failed''
      | _ \<Rightarrow> [])"

text \<open>The read accessors and the two introspection primitives, the default each pushes
  (\<open>0\<close>, \<open>0.0\<close> or the empty string), and the two accessors whose engine call can
  answer \<^verbatim>\<open>NULL\<close>.\<close>

definition read_accessor :: "primitive \<Rightarrow> bool" where
  "read_accessor p \<longleftrightarrow>
     p \<in> {Column_count, Column_name, Column_type, Column_int, Column_float, Column_text,
          Last_insert_rowid, Changes}"

definition default_value :: "primitive \<Rightarrow> qd_stack_element" where
  "default_value p =
     (if p = Column_float then QD_FLOAT 0
      else if p = Column_name \<or> p = Column_text then QD_STR []
      else QD_INT 0)"

definition null_answer :: "primitive \<Rightarrow> native_engine \<Rightarrow> qd_stack_element list \<Rightarrow> bool" where
  "null_answer p env s =
     (case p of
        Column_name \<Rightarrow>
          (case s of QD_PTR stmt # QD_INT i # _ \<Rightarrow> sqlite3_column_name env stmt (ucast i) = None
           | _ \<Rightarrow> False)
      | Column_text \<Rightarrow>
          (case s of QD_PTR stmt # QD_INT i # _ \<Rightarrow> sqlite3_column_text env stmt (ucast i) = None
           | _ \<Rightarrow> False)
      | _ \<Rightarrow> False)"

text \<open>An engine call whose result code the driver drops reports failure. Reset calls
  \<^verbatim>\<open>sqlite3_reset\<close> and \<^verbatim>\<open>sqlite3_clear_bindings\<close>, Close calls \<^verbatim>\<open>sqlite3_close\<close>
  and Finalize calls \<^verbatim>\<open>sqlite3_finalize\<close> (the last two on a pointer that is not
  null), each as a statement of its own whose value goes nowhere.\<close>

definition discarded_failure :: "primitive \<Rightarrow> native_engine \<Rightarrow> qd_stack_element list \<Rightarrow> bool" where
  "discarded_failure p env s =
     (case p of
        Reset \<Rightarrow>
          (case s of QD_PTR stmt # _ \<Rightarrow>
             sqlite3_reset env stmt \<noteq> SQLITE_OK \<or> sqlite3_clear_bindings env stmt \<noteq> SQLITE_OK
           | _ \<Rightarrow> False)
      | Close \<Rightarrow>
          (case s of QD_PTR db # _ \<Rightarrow> db \<noteq> 0 \<and> sqlite3_close env db \<noteq> SQLITE_OK
           | _ \<Rightarrow> False)
      | Finalize \<Rightarrow>
          (case s of QD_PTR stmt # _ \<Rightarrow> stmt \<noteq> 0 \<and> sqlite3_finalize env stmt \<noteq> SQLITE_OK
           | _ \<Rightarrow> False)
      | _ \<Rightarrow> False)"

text \<open>The result values of a primitive on well-typed operands, as the stack holds them
  (under the status of a fallible primitive): the handle the engine made for Open and
  Prepare, \<open>has_row\<close> for Step, and for an accessor the engine's answer for the statement
  or connection and the index (its low 32 bits) taken from the operands. A name or a text
  the engine answers \<^verbatim>\<open>NULL\<close> for is the empty string, and so is a text whose byte
  count is not positive or whose runtime string cannot be made. The other primitives have
  no result.\<close>

definition result_values ::
  "primitive \<Rightarrow> native_engine \<Rightarrow> qd_stack_element list \<Rightarrow> qd_stack_element list" where
  "result_values p env s =
     (case p of
        Open \<Rightarrow>
          (case s of QD_STR path # _ \<Rightarrow> [QD_PTR (snd (sqlite3_open env path))] | _ \<Rightarrow> [])
      | Prepare \<Rightarrow>
          (case s of QD_PTR db # QD_STR sql # _ \<Rightarrow> [QD_PTR (snd (sqlite3_prepare_v2 env db sql))]
           | _ \<Rightarrow> [])
      | Step \<Rightarrow>
          (case s of QD_PTR stmt # _ \<Rightarrow>
             [QD_INT (if sqlite3_step env stmt = SQLITE_ROW then 1 else 0)]
           | _ \<Rightarrow> [])
      | Column_count \<Rightarrow>
          (case s of QD_PTR stmt # _ \<Rightarrow> [QD_INT (scast (sqlite3_column_count env stmt))]
           | _ \<Rightarrow> [])
      | Column_name \<Rightarrow>
          (case s of QD_PTR stmt # QD_INT i # _ \<Rightarrow>
             [QD_STR (case sqlite3_column_name env stmt (ucast i) of Some n \<Rightarrow> n | None \<Rightarrow> [])]
           | _ \<Rightarrow> [])
      | Column_type \<Rightarrow>
          (case s of QD_PTR stmt # QD_INT i # _ \<Rightarrow>
             [QD_INT (scast (sqlite3_column_type env stmt (ucast i)))]
           | _ \<Rightarrow> [])
      | Column_int \<Rightarrow>
          (case s of QD_PTR stmt # QD_INT i # _ \<Rightarrow>
             [QD_INT (sqlite3_column_int64 env stmt (ucast i))]
           | _ \<Rightarrow> [])
      | Column_float \<Rightarrow>
          (case s of QD_PTR stmt # QD_INT i # _ \<Rightarrow>
             [QD_FLOAT (sqlite3_column_double env stmt (ucast i))]
           | _ \<Rightarrow> [])
      | Column_text \<Rightarrow>
          (case s of QD_PTR stmt # QD_INT i # _ \<Rightarrow>
             [QD_STR
                (case sqlite3_column_text env stmt (ucast i) of
                   Some t \<Rightarrow>
                     (if 0 < sint (sqlite3_column_bytes env stmt (ucast i)) \<and> qd_string_ok env
                      then take (unat (sqlite3_column_bytes env stmt (ucast i))) t
                      else [])
                 | None \<Rightarrow> [])]
           | _ \<Rightarrow> [])
      | Last_insert_rowid \<Rightarrow>
          (case s of QD_PTR db # _ \<Rightarrow> [QD_INT (sqlite3_last_insert_rowid env db)] | _ \<Rightarrow> [])
      | Changes \<Rightarrow>
          (case s of QD_PTR db # _ \<Rightarrow> [QD_INT (scast (sqlite3_changes env db))] | _ \<Rightarrow> [])
      | _ \<Rightarrow> [])"

section \<open>Auxiliary readings of the model\<close>

text \<open>The member of \<^verbatim>\<open>value\<close> an element holds when its tag is the expected one.\<close>

fun as_ptr :: "qd_stack_element \<Rightarrow> ptr option" where
  "as_ptr (QD_PTR p) = Some p"
| "as_ptr _ = None"

fun as_int :: "qd_stack_element \<Rightarrow> i64 option" where
  "as_int (QD_INT i) = Some i"
| "as_int _ = None"

fun as_str :: "qd_stack_element \<Rightarrow> string option" where
  "as_str (QD_STR s) = Some s"
| "as_str _ = None"

fun as_float :: "qd_stack_element \<Rightarrow> f64 option" where
  "as_float (QD_FLOAT f) = Some f"
| "as_float _ = None"

text \<open>What the four groups of primitives do on a transport-level failure at position
  \<open>k\<close>, collected from the branches of the source: the strict ones report
  \<^verbatim>\<open>INVALID_ARGUMENT\<close>, \<^verbatim>\<open>usr_sqlite_close\<close> only leaves a message,
  \<^verbatim>\<open>usr_sqlite_finalize\<close> does nothing, an accessor pushes its default. The lemma
  \<open>usr_sqlite_mismatch\<close> below proves that the primitives do exactly this.\<close>

definition on_mismatch ::
  "primitive \<Rightarrow> native_engine \<Rightarrow> qd_context \<Rightarrow> nat \<Rightarrow> int \<times> qd_context" where
  "on_mismatch p env ctx k =
     (let c = ctx\<lparr>st := drop (Suc k) (st ctx)\<rparr>
      in if fallible p then
           invalid_arg env c (''sqlite::'' @ prim_name p @ '': expected '' @ expected_operand p k)
         else if p = Close then (0, set_error_msg env c ''sqlite::close: expected pointer'')
         else if p = Finalize then (0, c)
         else (0, c\<lparr>st := default_value p # st c\<rparr>))"

section \<open>Test engines and contexts\<close>

text \<open>An engine for which every call succeeds, one for which every call fails with the
  same diagnostic, one that is done stepping, one whose current row holds \<^verbatim>\<open>NULL\<close> in
  every column (type code 5, no text, the number \<open>0\<close>), and a context with an empty
  stack and a clean Error Context.\<close>

definition engine_ok :: native_engine where
  "engine_ok =
     \<lparr>sqlite3_open = (\<lambda>_. (SQLITE_OK, 11)),
      sqlite3_errmsg = (\<lambda>_. ''not an error''),
      sqlite3_exec = (\<lambda>_ _. (SQLITE_OK, None)),
      sqlite3_prepare_v2 = (\<lambda>_ _. (SQLITE_OK, 22)),
      sqlite3_bind_text = (\<lambda>_ _ _ _. SQLITE_OK),
      sqlite3_bind_int64 = (\<lambda>_ _ _. SQLITE_OK),
      sqlite3_bind_double = (\<lambda>_ _ _. SQLITE_OK),
      sqlite3_bind_null = (\<lambda>_ _. SQLITE_OK),
      sqlite3_step = (\<lambda>_. SQLITE_ROW),
      sqlite3_column_count = (\<lambda>_. 2),
      sqlite3_column_name = (\<lambda>_ _. Some ''a''),
      sqlite3_column_type = (\<lambda>_ _. 3),
      sqlite3_column_int64 = (\<lambda>_ _. 42),
      sqlite3_column_double = (\<lambda>_ _. 0),
      sqlite3_column_text = (\<lambda>_ _. Some ''x''),
      sqlite3_column_bytes = (\<lambda>_ _. 1),
      sqlite3_last_insert_rowid = (\<lambda>_. 1),
      sqlite3_changes = (\<lambda>_. 1),
      sqlite3_reset = (\<lambda>_. SQLITE_OK),
      sqlite3_clear_bindings = (\<lambda>_. SQLITE_OK),
      sqlite3_close = (\<lambda>_. SQLITE_OK),
      sqlite3_finalize = (\<lambda>_. SQLITE_OK),
      heap_ok = True,
      qd_string_ok = True\<rparr>"

definition engine_failing :: native_engine where
  "engine_failing =
     \<lparr>sqlite3_open = (\<lambda>_. (14, 11)),
      sqlite3_errmsg = (\<lambda>_. ''UNIQUE constraint failed: t.a''),
      sqlite3_exec = (\<lambda>_ _. (1, Some ''UNIQUE constraint failed: t.a'')),
      sqlite3_prepare_v2 = (\<lambda>_ _. (1, 0)),
      sqlite3_bind_text = (\<lambda>_ _ _ _. 25),
      sqlite3_bind_int64 = (\<lambda>_ _ _. 25),
      sqlite3_bind_double = (\<lambda>_ _ _. 25),
      sqlite3_bind_null = (\<lambda>_ _. 25),
      sqlite3_step = (\<lambda>_. 19),
      sqlite3_column_count = (\<lambda>_. 0),
      sqlite3_column_name = (\<lambda>_ _. None),
      sqlite3_column_type = (\<lambda>_ _. 5),
      sqlite3_column_int64 = (\<lambda>_ _. 0),
      sqlite3_column_double = (\<lambda>_ _. 0),
      sqlite3_column_text = (\<lambda>_ _. None),
      sqlite3_column_bytes = (\<lambda>_ _. 0),
      sqlite3_last_insert_rowid = (\<lambda>_. 0),
      sqlite3_changes = (\<lambda>_. 0),
      sqlite3_reset = (\<lambda>_. 19),
      sqlite3_clear_bindings = (\<lambda>_. SQLITE_OK),
      sqlite3_close = (\<lambda>_. 5),
      sqlite3_finalize = (\<lambda>_. 19),
      heap_ok = True,
      qd_string_ok = True\<rparr>"

definition engine_done :: native_engine where
  "engine_done = engine_ok\<lparr>sqlite3_step := (\<lambda>_. SQLITE_DONE)\<rparr>"

definition engine_null_column :: native_engine where
  "engine_null_column =
     engine_ok\<lparr>sqlite3_column_type := (\<lambda>_ _. 5),
               sqlite3_column_int64 := (\<lambda>_ _. 0),
               sqlite3_column_text := (\<lambda>_ _. None),
               sqlite3_column_bytes := (\<lambda>_ _. 0)\<rparr>"

definition ctx_with :: "qd_stack_element list \<Rightarrow> qd_context" where
  "ctx_with s = \<lparr>st = s, error_code = 0, error_msg = None, native_log = []\<rparr>"

section \<open>Reading operands\<close>

lemmas prim_defs = usr_sqlite_open_def usr_sqlite_close_def usr_sqlite_exec_def
  usr_sqlite_prepare_def usr_sqlite_bind_text_def usr_sqlite_bind_int_def
  usr_sqlite_bind_float_def usr_sqlite_bind_null_def usr_sqlite_step_def
  usr_sqlite_reset_def usr_sqlite_finalize_def usr_sqlite_column_count_def
  usr_sqlite_column_name_def usr_sqlite_column_type_def usr_sqlite_column_int_def
  usr_sqlite_column_float_def usr_sqlite_column_text_def usr_sqlite_last_insert_rowid_def
  usr_sqlite_changes_def usr_sqlite_begin_def usr_sqlite_commit_def usr_sqlite_rollback_def

lemma as_miss:
  "kind_of e \<noteq> Ptr \<Longrightarrow> as_ptr e = None"
  "kind_of e \<noteq> I64 \<Longrightarrow> as_int e = None"
  "kind_of e \<noteq> Str \<Longrightarrow> as_str e = None"
  "kind_of e \<noteq> F64 \<Longrightarrow> as_float e = None"
  by (cases e; simp)+

text \<open>A typed read takes the top element off a non-empty stack, whatever its kind.\<close>

lemma pop_eqs:
  "pop_ptr c = (case st c of [] \<Rightarrow> (None, c) | e # s \<Rightarrow> (as_ptr e, c\<lparr>st := s\<rparr>))"
  "pop_int c = (case st c of [] \<Rightarrow> (None, c) | e # s \<Rightarrow> (as_int e, c\<lparr>st := s\<rparr>))"
  "pop_str c = (case st c of [] \<Rightarrow> (None, c) | e # s \<Rightarrow> (as_str e, c\<lparr>st := s\<rparr>))"
  "pop_float c = (case st c of [] \<Rightarrow> (None, c) | e # s \<Rightarrow> (as_float e, c\<lparr>st := s\<rparr>))"
  by (simp_all add: pop_ptr_def pop_int_def pop_str_def pop_float_def qd_stack_pop_def
        split: list.split qd_stack_element.split)

lemma st_update_same: "st c = s \<Longrightarrow> c\<lparr>st := s\<rparr> = c"
  by auto

text \<open>The shape of a stack that matches a signature, and of one that does not.\<close>

lemma fm_None:
  "first_mismatch (Ptr # ks) s = None \<longleftrightarrow>
     (\<exists>p r. s = QD_PTR p # r \<and> first_mismatch ks r = None)"
  "first_mismatch (I64 # ks) s = None \<longleftrightarrow>
     (\<exists>i r. s = QD_INT i # r \<and> first_mismatch ks r = None)"
  "first_mismatch (Str # ks) s = None \<longleftrightarrow>
     (\<exists>x r. s = QD_STR x # r \<and> first_mismatch ks r = None)"
  "first_mismatch (F64 # ks) s = None \<longleftrightarrow>
     (\<exists>f r. s = QD_FLOAT f # r \<and> first_mismatch ks r = None)"
  by (cases s; simp; case_tac a; simp)+

lemma fm_Some:
  "first_mismatch (Ptr # ks) s = Some k \<longleftrightarrow>
     (k = 0 \<and> s = []) \<or> (k = 0 \<and> (\<exists>e r. s = e # r \<and> kind_of e \<noteq> Ptr)) \<or>
     (\<exists>p r j. s = QD_PTR p # r \<and> first_mismatch ks r = Some j \<and> k = Suc j)"
  "first_mismatch (I64 # ks) s = Some k \<longleftrightarrow>
     (k = 0 \<and> s = []) \<or> (k = 0 \<and> (\<exists>e r. s = e # r \<and> kind_of e \<noteq> I64)) \<or>
     (\<exists>i r j. s = QD_INT i # r \<and> first_mismatch ks r = Some j \<and> k = Suc j)"
  "first_mismatch (Str # ks) s = Some k \<longleftrightarrow>
     (k = 0 \<and> s = []) \<or> (k = 0 \<and> (\<exists>e r. s = e # r \<and> kind_of e \<noteq> Str)) \<or>
     (\<exists>x r j. s = QD_STR x # r \<and> first_mismatch ks r = Some j \<and> k = Suc j)"
  "first_mismatch (F64 # ks) s = Some k \<longleftrightarrow>
     (k = 0 \<and> s = []) \<or> (k = 0 \<and> (\<exists>e r. s = e # r \<and> kind_of e \<noteq> F64)) \<or>
     (\<exists>f r j. s = QD_FLOAT f # r \<and> first_mismatch ks r = Some j \<and> k = Suc j)"
  by (cases s; simp; case_tac a; auto)+

lemmas aux_defs = pop_eqs as_miss st_update_same
  qd_push_i_def qd_push_f_def qd_push_s_def qd_push_p_def log_call_def invalid_arg_def
  set_error_msg_def set_sqlite_error_def set_exec_error_def Let_def split_beta

lemmas tf_defs = transport_failure_def pop_order_def fm_None fm_Some

text \<open>Evaluation on concrete stacks uses the definitions as they stand.\<close>

lemmas run_defs = prim_defs pop_ptr_def pop_int_def pop_str_def pop_float_def qd_stack_pop_def
  qd_push_i_def qd_push_f_def qd_push_s_def qd_push_p_def log_call_def invalid_arg_def
  set_error_msg_def set_sqlite_error_def set_exec_error_def heap_copy_def Let_def
  transport_failure_def pop_order_def ctx_with_def engine_ok_def engine_failing_def
  engine_done_def engine_null_column_def

section \<open>Transport-level failures\<close>

lemma usr_sqlite_mismatch:
  "transport_failure p (st ctx) = Some k \<Longrightarrow> usr_sqlite p env ctx = on_mismatch p env ctx k"
  by (cases p; auto simp: prim_defs aux_defs tf_defs on_mismatch_def expected_operand_def
        default_value_def)

lemma native_failure_fallible: "native_failure p env s \<Longrightarrow> fallible p"
  by (cases p; simp add: native_failure_def)

lemma native_code_range: "native_failure p env s \<Longrightarrow> native_code p \<in> {2, 3, 4, 5, 6}"
  by (cases p; simp add: native_failure_def native_code_def)

section \<open>Well-typed invocations\<close>

lemma well_typed_return:
  "transport_failure p (st ctx) = None \<Longrightarrow>
   fst (usr_sqlite p env ctx) = (if native_failure p env (st ctx) then native_code p else 0)"
  by (cases p; auto simp: prim_defs aux_defs tf_defs native_failure_def native_code_def
        split: option.split)

lemma well_typed_error_code:
  "transport_failure p (st ctx) = None \<Longrightarrow>
   error_code (snd (usr_sqlite p env ctx)) =
     (if native_failure p env (st ctx) then native_code p else error_code ctx)"
  by (cases p; auto simp: prim_defs aux_defs tf_defs native_failure_def native_code_def
        split: option.split)

lemma well_typed_failure_stack:
  "transport_failure p (st ctx) = None \<Longrightarrow> native_failure p env (st ctx) \<Longrightarrow>
   st (snd (usr_sqlite p env ctx)) = drop (length (stack_inputs p)) (st ctx)"
  by (cases p; auto simp: prim_defs aux_defs tf_defs native_failure_def split: option.split)

section \<open>The values left on the stack\<close>

lemma fallible_success_values:
  "fallible p \<Longrightarrow> transport_failure p (st ctx) = None \<Longrightarrow> fst (usr_sqlite p env ctx) = 0 \<Longrightarrow>
   st (snd (usr_sqlite p env ctx)) =
     QD_INT 1 # result_values p env (st ctx) @ drop (length (stack_inputs p)) (st ctx)"
  by (cases p; auto simp: prim_defs aux_defs tf_defs result_values_def split: option.split)

lemma lenient_well_typed_values:
  "\<not> fallible p \<Longrightarrow> transport_failure p (st ctx) = None \<Longrightarrow>
   st (snd (usr_sqlite p env ctx)) =
     result_values p env (st ctx) @ drop (length (stack_inputs p)) (st ctx)"
  by (cases p; auto simp: prim_defs aux_defs tf_defs result_values_def split: option.split)

lemma lenient_mismatch_values:
  assumes "\<not> fallible p" and "transport_failure p (st ctx) = Some k"
  shows "st (snd (usr_sqlite p env ctx)) =
           (if read_accessor p then [default_value p] else []) @ drop (Suc k) (st ctx)"
  unfolding usr_sqlite_mismatch [OF assms(2)]
  using assms(1)
  by (cases p; simp add: on_mismatch_def read_accessor_def set_error_msg_def Let_def)

lemma result_values_kinds:
  "transport_failure p s = None \<Longrightarrow> map kind_of (result_values p env s) = stack_outputs p"
  by (cases p; auto simp: tf_defs result_values_def)

lemma default_value_kind:
  "read_accessor p \<Longrightarrow> [kind_of (default_value p)] = stack_outputs p"
  unfolding read_accessor_def by (auto simp: default_value_def)

lemma lenient_outputs:
  "\<not> fallible p \<Longrightarrow> \<not> read_accessor p \<Longrightarrow> stack_outputs p = []"
  by (cases p; simp add: read_accessor_def)

lemma accessor_one_value:
  "read_accessor p \<Longrightarrow> transport_failure p s = None \<Longrightarrow> length (result_values p env s) = 1"
  unfolding read_accessor_def
  by (cases p; auto simp: tf_defs result_values_def)

section \<open>C1: transport-level failures of the strict primitives\<close>

text \<open>
  C1, as stated, speaks of every primitive. It fails for the lenient ones:
  \<^verbatim>\<open>usr_sqlite_column_count\<close> on an empty stack returns \<open>0\<close>, pushes the integer
  \<open>0\<close> and leaves the Error Context alone.
\<close>

theorem C1_counterexample_column_count:
  "transport_failure Column_count (st (ctx_with [])) = Some 0 \<and>
   fst (usr_sqlite Column_count engine_ok (ctx_with [])) = 0 \<and>
   st (snd (usr_sqlite Column_count engine_ok (ctx_with []))) = [QD_INT 0] \<and>
   error_code (snd (usr_sqlite Column_count engine_ok (ctx_with []))) = 0 \<and>
   error_msg (snd (usr_sqlite Column_count engine_ok (ctx_with []))) = None"
  by (simp add: run_defs)

text \<open>
  C1 (amended): for every fallible primitive (those the header marks with \<^verbatim>\<open>!\<close>) and
  every stack, if the operand at position \<open>k\<close> of its pop order is of the wrong kind
  or the stack is exhausted there, the primitive returns \<^verbatim>\<open>INVALID_ARGUMENT\<close> (7),
  stores the code 7 and a copy of its message \<^verbatim>\<open>sqlite::<name>: expected <operand>\<close>
  in the Error Context (the message slot is \<^verbatim>\<open>NULL\<close> when the copy cannot be
  allocated), makes no engine call, and pushes nothing: the stack is the old one less the
  operands read up to and including the offending one.
\<close>

theorem C1_strict_transport_failure:
  assumes "fallible p" and "transport_failure p (st ctx) = Some k"
  shows "fst (usr_sqlite p env ctx) = SQLITE_ERR_INVALID_ARG \<and>
         error_code (snd (usr_sqlite p env ctx)) = SQLITE_ERR_INVALID_ARG \<and>
         error_msg (snd (usr_sqlite p env ctx)) =
           heap_copy env (''sqlite::'' @ prim_name p @ '': expected '' @ expected_operand p k) \<and>
         native_log (snd (usr_sqlite p env ctx)) = native_log ctx \<and>
         st (snd (usr_sqlite p env ctx)) = drop (Suc k) (st ctx)"
  using assms
  by (simp add: usr_sqlite_mismatch on_mismatch_def invalid_arg_def set_error_msg_def Let_def)

theorem C1_witness_bind_text:
  "fallible Bind_text \<and>
   transport_failure Bind_text (st (ctx_with [QD_PTR 22, QD_PTR 0, QD_INT 5])) = Some 1 \<and>
   fst (usr_sqlite Bind_text engine_ok (ctx_with [QD_PTR 22, QD_PTR 0, QD_INT 5])) = 7 \<and>
   error_code (snd (usr_sqlite Bind_text engine_ok (ctx_with [QD_PTR 22, QD_PTR 0, QD_INT 5]))) = 7 \<and>
   error_msg (snd (usr_sqlite Bind_text engine_ok (ctx_with [QD_PTR 22, QD_PTR 0, QD_INT 5]))) =
     Some ''sqlite::bind_text: expected integer index'' \<and>
   native_log (snd (usr_sqlite Bind_text engine_ok (ctx_with [QD_PTR 22, QD_PTR 0, QD_INT 5]))) = [] \<and>
   st (snd (usr_sqlite Bind_text engine_ok (ctx_with [QD_PTR 22, QD_PTR 0, QD_INT 5]))) = [QD_INT 5]"
proof -
  have f: "fallible Bind_text"
    by simp
  have t: "transport_failure Bind_text (st (ctx_with [QD_PTR 22, QD_PTR 0, QD_INT 5])) = Some 1"
    by (simp add: transport_failure_def pop_order_def ctx_with_def)
  show ?thesis
    using f t C1_strict_transport_failure [OF f t, of engine_ok]
    by (simp add: ctx_with_def engine_ok_def heap_copy_def expected_operand_def)
qed

section \<open>C2: the return value\<close>

lemma discarded_failure_shape:
  "discarded_failure p env s \<Longrightarrow>
   (p = Reset \<or> p = Close \<or> p = Finalize) \<and> (\<exists>x r. s = QD_PTR x # r)"
  by (cases p; simp add: discarded_failure_def split: list.splits qd_stack_element.splits)

lemma discarded_failure_unnoticed:
  assumes "discarded_failure p env (st ctx)"
  shows "fst (usr_sqlite p env ctx) = 0 \<and>
         error_code (snd (usr_sqlite p env ctx)) = error_code ctx \<and>
         error_msg (snd (usr_sqlite p env ctx)) = error_msg ctx \<and>
         st (snd (usr_sqlite p env ctx)) = (if p = Reset then [QD_INT 1] else []) @ drop 1 (st ctx)"
proof -
  from discarded_failure_shape [OF assms]
  obtain x r where "p = Reset \<or> p = Close \<or> p = Finalize" and "st ctx = QD_PTR x # r"
    by blast
  then show ?thesis
    by (auto simp: prim_defs aux_defs)
qed

text \<open>
  C2, as stated, has a primitive return \<open>0\<close> whenever the operands are well typed, also
  when the engine fails. \<^verbatim>\<open>usr_sqlite_exec\<close> on a pointer and a string, with an engine
  that refuses the statement, returns \<^verbatim>\<open>SQLITE_ERR_EXEC\<close> (3).
\<close>

theorem C2_counterexample_exec:
  "transport_failure Exec (st (ctx_with [QD_PTR 11, QD_STR ''INSERT INTO t VALUES (1)''])) = None \<and>
   fst (usr_sqlite Exec engine_failing (ctx_with [QD_PTR 11, QD_STR ''INSERT INTO t VALUES (1)''])) = 3 \<and>
   error_code (snd (usr_sqlite Exec engine_failing
     (ctx_with [QD_PTR 11, QD_STR ''INSERT INTO t VALUES (1)'']))) = 3 \<and>
   st (snd (usr_sqlite Exec engine_failing
     (ctx_with [QD_PTR 11, QD_STR ''INSERT INTO t VALUES (1)'']))) = []"
  by (simp add: run_defs)

text \<open>
  C2 (amended): for every primitive and every stack, the return value is \<open>0\<close> exactly
  when there is neither a transport-level failure in a fallible primitive nor a failure
  of an engine call whose result code the primitive tests. Open, Exec, Prepare, the
  binders, Step, Begin, Commit and Rollback test the result code of their engine call:
  when it reports failure the primitive returns its operation-specific code (one of 2 to
  6), stores that code in the Error Context and pushes nothing. Reset, Close and Finalize
  drop the result codes of their engine calls (\<^verbatim>\<open>sqlite3_reset\<close>,
  \<^verbatim>\<open>sqlite3_clear_bindings\<close>, \<^verbatim>\<open>sqlite3_close\<close>, \<^verbatim>\<open>sqlite3_finalize\<close>): a
  failure reported there goes unnoticed, the primitive returns \<open>0\<close>, leaves the Error
  Context alone, and Reset still pushes \<^verbatim>\<open>OK\<close>. A fallible primitive returns 7 on a
  transport-level failure; a primitive that is not fallible always returns \<open>0\<close>.
\<close>

theorem C2_return_value:
  "fst (usr_sqlite p env ctx) =
     (if fallible p \<and> transport_failure p (st ctx) \<noteq> None then SQLITE_ERR_INVALID_ARG
      else if native_failure p env (st ctx) then native_code p
      else 0) \<and>
   (native_failure p env (st ctx) \<longrightarrow> fallible p \<and> native_code p \<in> {2, 3, 4, 5, 6}) \<and>
   (transport_failure p (st ctx) = None \<and> native_failure p env (st ctx) \<longrightarrow>
      error_code (snd (usr_sqlite p env ctx)) = native_code p \<and>
      st (snd (usr_sqlite p env ctx)) = drop (length (stack_inputs p)) (st ctx)) \<and>
   (discarded_failure p env (st ctx) \<longrightarrow>
      \<not> native_failure p env (st ctx) \<and>
      fst (usr_sqlite p env ctx) = 0 \<and>
      error_code (snd (usr_sqlite p env ctx)) = error_code ctx \<and>
      error_msg (snd (usr_sqlite p env ctx)) = error_msg ctx \<and>
      st (snd (usr_sqlite p env ctx)) = (if p = Reset then [QD_INT 1] else []) @ drop 1 (st ctx))"
proof -
  have tested:
    "fst (usr_sqlite p env ctx) =
       (if fallible p \<and> transport_failure p (st ctx) \<noteq> None then SQLITE_ERR_INVALID_ARG
        else if native_failure p env (st ctx) then native_code p
        else 0) \<and>
     (native_failure p env (st ctx) \<longrightarrow> fallible p \<and> native_code p \<in> {2, 3, 4, 5, 6}) \<and>
     (transport_failure p (st ctx) = None \<and> native_failure p env (st ctx) \<longrightarrow>
        error_code (snd (usr_sqlite p env ctx)) = native_code p \<and>
        st (snd (usr_sqlite p env ctx)) = drop (length (stack_inputs p)) (st ctx))"
  proof (cases "transport_failure p (st ctx)")
    case None
    then show ?thesis
      using native_failure_fallible [of p env "st ctx"] native_code_range [of p env "st ctx"]
      by (simp add: well_typed_return well_typed_error_code well_typed_failure_stack)
  next
    case (Some k)
    then show ?thesis
      using native_failure_fallible [of p env "st ctx"] native_code_range [of p env "st ctx"]
      by (auto simp: usr_sqlite_mismatch on_mismatch_def invalid_arg_def Let_def)
  qed
  have dropped: "\<not> native_failure p env (st ctx)" if "discarded_failure p env (st ctx)"
    using discarded_failure_shape [OF that] by (auto simp: native_failure_def)
  from tested dropped discarded_failure_unnoticed [of p env ctx] show ?thesis
    by blast
qed

theorem C2_witness_exec_and_reset:
  "fst (usr_sqlite Exec engine_failing (ctx_with [QD_PTR 11, QD_STR ''COMMIT''])) = native_code Exec \<and>
   native_failure Exec engine_failing (st (ctx_with [QD_PTR 11, QD_STR ''COMMIT''])) \<and>
   fallible Exec \<and> native_code Exec = 3 \<and>
   transport_failure Exec (st (ctx_with [QD_PTR 11, QD_STR ''COMMIT''])) = None \<and>
   error_code (snd (usr_sqlite Exec engine_failing (ctx_with [QD_PTR 11, QD_STR ''COMMIT'']))) = 3 \<and>
   st (snd (usr_sqlite Exec engine_failing (ctx_with [QD_PTR 11, QD_STR ''COMMIT'']))) = [] \<and>
   sqlite3_reset engine_failing 22 = 19 \<and>
   discarded_failure Reset engine_failing (st (ctx_with [QD_PTR 22, QD_INT 8])) \<and>
   fst (usr_sqlite Reset engine_failing (ctx_with [QD_PTR 22, QD_INT 8])) = 0 \<and>
   error_code (snd (usr_sqlite Reset engine_failing (ctx_with [QD_PTR 22, QD_INT 8]))) = 0 \<and>
   st (snd (usr_sqlite Reset engine_failing (ctx_with [QD_PTR 22, QD_INT 8]))) = [QD_INT 1, QD_INT 8]"
proof -
  have n: "native_failure Exec engine_failing (st (ctx_with [QD_PTR 11, QD_STR ''COMMIT'']))"
    by (simp add: native_failure_def ctx_with_def engine_failing_def)
  have t: "transport_failure Exec (st (ctx_with [QD_PTR 11, QD_STR ''COMMIT''])) = None"
    by (simp add: transport_failure_def pop_order_def ctx_with_def)
  have r: "sqlite3_reset engine_failing 22 = 19"
    by (simp add: engine_failing_def)
  have d: "discarded_failure Reset engine_failing (st (ctx_with [QD_PTR 22, QD_INT 8]))"
    by (simp add: discarded_failure_def ctx_with_def engine_failing_def)
  show ?thesis
    using n t r d
      C2_return_value [of Exec engine_failing "ctx_with [QD_PTR 11, QD_STR ''COMMIT'']"]
      C2_return_value [of Reset engine_failing "ctx_with [QD_PTR 22, QD_INT 8]"]
    by (simp add: native_code_def ctx_with_def)
qed

section \<open>C3: the three outcomes of a step\<close>

text \<open>
  C3: for every invocation of Step with a pointer on top of the stack: if the engine's
  step answers \<^verbatim>\<open>SQLITE_ROW\<close>, Step pushes \<open>has_row = 1\<close>, then \<^verbatim>\<open>OK\<close> (1), and
  returns \<open>0\<close>; if it answers \<^verbatim>\<open>SQLITE_DONE\<close>, Step pushes \<open>has_row = 0\<close>, then
  \<^verbatim>\<open>OK\<close>, and returns \<open>0\<close>; for every other answer it pushes nothing, stores
  \<^verbatim>\<open>STEP_ERROR\<close> (6) in the Error Context and returns 6, whatever the answer was.
  In the first two cases the Error Context is left as it was.
\<close>

theorem C3_step_outcomes:
  assumes "st ctx = QD_PTR stmt # rest"
  shows "(sqlite3_step env stmt = SQLITE_ROW \<longrightarrow>
            fst (usr_sqlite_step env ctx) = 0 \<and>
            st (snd (usr_sqlite_step env ctx)) = QD_INT 1 # QD_INT 1 # rest \<and>
            error_code (snd (usr_sqlite_step env ctx)) = error_code ctx \<and>
            error_msg (snd (usr_sqlite_step env ctx)) = error_msg ctx) \<and>
         (sqlite3_step env stmt = SQLITE_DONE \<longrightarrow>
            fst (usr_sqlite_step env ctx) = 0 \<and>
            st (snd (usr_sqlite_step env ctx)) = QD_INT 1 # QD_INT 0 # rest \<and>
            error_code (snd (usr_sqlite_step env ctx)) = error_code ctx \<and>
            error_msg (snd (usr_sqlite_step env ctx)) = error_msg ctx) \<and>
         (sqlite3_step env stmt \<noteq> SQLITE_ROW \<and> sqlite3_step env stmt \<noteq> SQLITE_DONE \<longrightarrow>
            fst (usr_sqlite_step env ctx) = SQLITE_ERR_STEP \<and>
            st (snd (usr_sqlite_step env ctx)) = rest \<and>
            error_code (snd (usr_sqlite_step env ctx)) = SQLITE_ERR_STEP)"
  using assms
  by (simp add: usr_sqlite_step_def pop_ptr_def qd_stack_pop_def qd_push_i_def log_call_def
        set_error_msg_def Let_def)

theorem C3_witness_row_done_error:
  "st (ctx_with [QD_PTR 22, QD_STR ''below'']) = QD_PTR 22 # [QD_STR ''below''] \<and>
   sqlite3_step engine_ok 22 = SQLITE_ROW \<and>
   fst (usr_sqlite_step engine_ok (ctx_with [QD_PTR 22, QD_STR ''below''])) = 0 \<and>
   st (snd (usr_sqlite_step engine_ok (ctx_with [QD_PTR 22, QD_STR ''below'']))) =
     [QD_INT 1, QD_INT 1, QD_STR ''below''] \<and>
   sqlite3_step engine_done 22 = SQLITE_DONE \<and>
   fst (usr_sqlite_step engine_done (ctx_with [QD_PTR 22, QD_STR ''below''])) = 0 \<and>
   st (snd (usr_sqlite_step engine_done (ctx_with [QD_PTR 22, QD_STR ''below'']))) =
     [QD_INT 1, QD_INT 0, QD_STR ''below''] \<and>
   sqlite3_step engine_failing 22 = 19 \<and>
   fst (usr_sqlite_step engine_failing (ctx_with [QD_PTR 22, QD_STR ''below''])) = 6 \<and>
   st (snd (usr_sqlite_step engine_failing (ctx_with [QD_PTR 22, QD_STR ''below'']))) =
     [QD_STR ''below''] \<and>
   error_code (snd (usr_sqlite_step engine_failing (ctx_with [QD_PTR 22, QD_STR ''below'']))) = 6"
proof -
  have s: "st (ctx_with [QD_PTR 22, QD_STR ''below'']) = QD_PTR 22 # [QD_STR ''below'']"
    by (simp add: ctx_with_def)
  have r: "sqlite3_step engine_ok 22 = SQLITE_ROW"
    by (simp add: engine_ok_def)
  have d: "sqlite3_step engine_done 22 = SQLITE_DONE"
    by (simp add: engine_done_def engine_ok_def)
  have e: "sqlite3_step engine_failing 22 = 19"
    by (simp add: engine_failing_def)
  show ?thesis
    using s r d e C3_step_outcomes [OF s, of engine_ok] C3_step_outcomes [OF s, of engine_done]
      C3_step_outcomes [OF s, of engine_failing]
    by simp
qed

section \<open>C10: the return value and the stored code\<close>

text \<open>
  C10: for every primitive and every stack, a non-zero return value equals the
  \<^verbatim>\<open>error_code\<close> the invocation leaves in the Error Context and is one of 2, 3, 4, 5,
  6, 7; an invocation that returns \<open>0\<close> leaves \<^verbatim>\<open>error_code\<close> as it found it.
\<close>

theorem C10_return_matches_error_code:
  "(fst (usr_sqlite p env ctx) \<noteq> 0 \<longrightarrow>
      error_code (snd (usr_sqlite p env ctx)) = fst (usr_sqlite p env ctx) \<and>
      fst (usr_sqlite p env ctx) \<in> {2, 3, 4, 5, 6, 7}) \<and>
   (fst (usr_sqlite p env ctx) = 0 \<longrightarrow>
      error_code (snd (usr_sqlite p env ctx)) = error_code ctx)"
proof (cases "transport_failure p (st ctx)")
  case None
  then show ?thesis
    using native_code_range [of p env "st ctx"]
    by (auto simp: well_typed_return well_typed_error_code)
next
  case (Some k)
  then show ?thesis
    by (simp add: usr_sqlite_mismatch on_mismatch_def invalid_arg_def set_error_msg_def Let_def)
qed

theorem C10_witness_prepare_and_changes:
  "fst (usr_sqlite Prepare engine_failing (ctx_with [QD_PTR 11, QD_STR ''SELEC 1''])) = 4 \<and>
   error_code (snd (usr_sqlite Prepare engine_failing (ctx_with [QD_PTR 11, QD_STR ''SELEC 1'']))) = 4 \<and>
   fst (usr_sqlite Changes engine_ok ((ctx_with [QD_PTR 11])\<lparr>error_code := 5\<rparr>)) = 0 \<and>
   error_code (snd (usr_sqlite Changes engine_ok ((ctx_with [QD_PTR 11])\<lparr>error_code := 5\<rparr>))) = 5"
proof -
  have a: "fst (usr_sqlite Prepare engine_failing (ctx_with [QD_PTR 11, QD_STR ''SELEC 1''])) = 4"
    by (simp add: run_defs)
  have b: "fst (usr_sqlite Changes engine_ok ((ctx_with [QD_PTR 11])\<lparr>error_code := 5\<rparr>)) = 0"
    by (simp add: run_defs)
  show ?thesis
    using a b
      C10_return_matches_error_code
        [of Prepare engine_failing "ctx_with [QD_PTR 11, QD_STR ''SELEC 1'']"]
      C10_return_matches_error_code
        [of Changes engine_ok "(ctx_with [QD_PTR 11])\<lparr>error_code := 5\<rparr>"]
    by (simp add: ctx_with_def)
qed

section \<open>C4: what a native-tier failure stores\<close>

text \<open>
  C4, as stated, has every native-tier failure store the engine's own diagnostic text.
  \<^verbatim>\<open>usr_sqlite_step\<close> with an engine whose step fails, and whose diagnostic is
  \<^verbatim>\<open>UNIQUE constraint failed: t.a\<close> for every connection, stores the fixed text
  \<^verbatim>\<open>sqlite::step: execution failed\<close>.
\<close>

theorem C4_counterexample_step:
  "native_failure Step engine_failing (st (ctx_with [QD_PTR 22])) \<and>
   sqlite3_errmsg engine_failing 11 = ''UNIQUE constraint failed: t.a'' \<and>
   error_msg (snd (usr_sqlite Step engine_failing (ctx_with [QD_PTR 22]))) =
     Some ''sqlite::step: execution failed'' \<and>
   error_code (snd (usr_sqlite Step engine_failing (ctx_with [QD_PTR 22]))) = 6"
  by (simp add: run_defs native_failure_def)

text \<open>
  C4 (amended): for every native-tier failure the Error Context code stored is the
  operation-specific code (\<^verbatim>\<open>OPEN_ERROR\<close>, \<^verbatim>\<open>EXEC_ERROR\<close> also for Begin, Commit
  and Rollback, \<^verbatim>\<open>PREPARE_ERROR\<close>, \<^verbatim>\<open>BIND_ERROR\<close>, \<^verbatim>\<open>STEP_ERROR\<close>), and the
  message stored is a copy of \<^verbatim>\<open>sqlite::<name>: <text>\<close> (the slot is \<^verbatim>\<open>NULL\<close> when
  the copy cannot be allocated), where the text is the engine's diagnostic only for Open
  and Prepare (the connection's \<^verbatim>\<open>sqlite3_errmsg\<close>, or \<^verbatim>\<open>unknown error\<close> without a
  connection) and for Exec, Begin, Commit and Rollback (the \<^verbatim>\<open>errmsg\<close> the engine
  handed out, or \<^verbatim>\<open>execution failed\<close>, respectively \<^verbatim>\<open>failed\<close>, when it handed out
  none); for the binders it is the fixed text \<^verbatim>\<open>bind failed\<close> and for Step the fixed
  text \<^verbatim>\<open>execution failed\<close>.
\<close>

theorem C4_native_failure_context:
  assumes "transport_failure p (st ctx) = None" and "native_failure p env (st ctx)"
  shows "error_code (snd (usr_sqlite p env ctx)) = native_code p \<and>
         error_msg (snd (usr_sqlite p env ctx)) =
           heap_copy env (''sqlite::'' @ prim_name p @ '': '' @ failure_text p env (st ctx))"
proof -
  have "error_msg (snd (usr_sqlite p env ctx)) =
          heap_copy env (''sqlite::'' @ prim_name p @ '': '' @ failure_text p env (st ctx))"
    using assms
    by (cases p; auto simp: prim_defs aux_defs tf_defs native_failure_def failure_text_def
          split: option.split)
  with assms show ?thesis
    by (simp add: well_typed_error_code)
qed

theorem C4_witness_open_and_bind:
  "transport_failure Open (st (ctx_with [QD_STR ''/nowhere/db''])) = None \<and>
   native_failure Open engine_failing (st (ctx_with [QD_STR ''/nowhere/db''])) \<and>
   error_code (snd (usr_sqlite Open engine_failing (ctx_with [QD_STR ''/nowhere/db'']))) = 2 \<and>
   error_msg (snd (usr_sqlite Open engine_failing (ctx_with [QD_STR ''/nowhere/db'']))) =
     Some ''sqlite::open: UNIQUE constraint failed: t.a'' \<and>
   transport_failure Bind_null (st (ctx_with [QD_PTR 22, QD_INT 9])) = None \<and>
   native_failure Bind_null engine_failing (st (ctx_with [QD_PTR 22, QD_INT 9])) \<and>
   error_code (snd (usr_sqlite Bind_null engine_failing (ctx_with [QD_PTR 22, QD_INT 9]))) = 5 \<and>
   error_msg (snd (usr_sqlite Bind_null engine_failing (ctx_with [QD_PTR 22, QD_INT 9]))) =
     Some ''sqlite::bind_null: bind failed''"
proof -
  have t1: "transport_failure Open (st (ctx_with [QD_STR ''/nowhere/db''])) = None"
    by (simp add: transport_failure_def pop_order_def ctx_with_def)
  have n1: "native_failure Open engine_failing (st (ctx_with [QD_STR ''/nowhere/db'']))"
    by (simp add: native_failure_def ctx_with_def engine_failing_def)
  have t2: "transport_failure Bind_null (st (ctx_with [QD_PTR 22, QD_INT 9])) = None"
    by (simp add: transport_failure_def pop_order_def ctx_with_def)
  have n2: "native_failure Bind_null engine_failing (st (ctx_with [QD_PTR 22, QD_INT 9]))"
    by (simp add: native_failure_def ctx_with_def engine_failing_def)
  show ?thesis
    using t1 n1 t2 n2
      C4_native_failure_context [OF t1 n1] C4_native_failure_context [OF t2 n2]
    by (simp add: native_code_def failure_text_def heap_copy_def ctx_with_def engine_failing_def)
qed

section \<open>C5: the column type code\<close>

text \<open>
  C5, as stated, puts every integer ColumnType pushes in \<open>{1, 2, 3, 4, 5}\<close>. On an
  empty stack \<^verbatim>\<open>usr_sqlite_column_type\<close> pushes \<open>0\<close>.
\<close>

theorem C5_counterexample_empty_stack:
  "st (snd (usr_sqlite Column_type engine_ok (ctx_with []))) = [QD_INT 0] \<and>
   fst (usr_sqlite Column_type engine_ok (ctx_with [])) = 0"
  by (simp add: run_defs)

text \<open>
  C5 (amended): for every invocation of ColumnType on a pointer above an integer, the
  integer pushed is the engine's own type code for that statement and that index (the
  low 32 bits of the operand), handed on unchanged and widened with its sign; there is no
  normalisation step, so the value is in \<open>{1, 2, 3, 4, 5}\<close> whenever the engine's code
  is (SQLite numbers INTEGER 1, FLOAT 2, TEXT 3, BLOB 4, NULL 5). On an operand of the
  wrong kind or an exhausted stack the integer pushed is \<open>0\<close>.
\<close>

theorem C5_column_type_passes_through:
  "(st ctx = QD_PTR stmt # QD_INT i # rest \<longrightarrow>
      st (snd (usr_sqlite Column_type env ctx)) =
        QD_INT (scast (sqlite3_column_type env stmt (ucast i))) # rest \<and>
      (sqlite3_column_type env stmt (ucast i) \<in> {1, 2, 3, 4, 5} \<longrightarrow>
         (scast (sqlite3_column_type env stmt (ucast i)) :: i64) \<in> {1, 2, 3, 4, 5})) \<and>
   (transport_failure Column_type (st ctx) = Some k \<longrightarrow>
      st (snd (usr_sqlite Column_type env ctx)) = QD_INT 0 # drop (Suc k) (st ctx))"
proof -
  have a: "st ctx = QD_PTR stmt # QD_INT i # rest \<Longrightarrow>
      st (snd (usr_sqlite Column_type env ctx)) =
        QD_INT (scast (sqlite3_column_type env stmt (ucast i))) # rest"
    by (simp add: usr_sqlite_column_type_def aux_defs)
  have b: "sqlite3_column_type env stmt (ucast i) \<in> {1, 2, 3, 4, 5} \<Longrightarrow>
      (scast (sqlite3_column_type env stmt (ucast i)) :: i64) \<in> {1, 2, 3, 4, 5}"
    by auto
  have c: "transport_failure Column_type (st ctx) = Some k \<Longrightarrow>
      st (snd (usr_sqlite Column_type env ctx)) = QD_INT 0 # drop (Suc k) (st ctx)"
    using usr_sqlite_mismatch [of Column_type ctx k env]
    by (simp add: on_mismatch_def default_value_def Let_def)
  from a b c show ?thesis
    by blast
qed

theorem C5_witness_text_column:
  "st (ctx_with [QD_PTR 22, QD_INT 1, QD_FLOAT 7]) = QD_PTR 22 # QD_INT 1 # [QD_FLOAT 7] \<and>
   sqlite3_column_type engine_ok 22 (ucast (1 :: i64)) = 3 \<and>
   st (snd (usr_sqlite Column_type engine_ok (ctx_with [QD_PTR 22, QD_INT 1, QD_FLOAT 7]))) =
     [QD_INT 3, QD_FLOAT 7] \<and>
   transport_failure Column_type (st (ctx_with [QD_PTR 22, QD_STR ''a''])) = Some 1 \<and>
   st (snd (usr_sqlite Column_type engine_ok (ctx_with [QD_PTR 22, QD_STR ''a'']))) = [QD_INT 0]"
proof -
  have s: "st (ctx_with [QD_PTR 22, QD_INT 1, QD_FLOAT 7]) = QD_PTR 22 # QD_INT 1 # [QD_FLOAT 7]"
    by (simp add: ctx_with_def)
  have e: "sqlite3_column_type engine_ok 22 (ucast (1 :: i64)) = 3"
    by (simp add: engine_ok_def)
  have t: "transport_failure Column_type (st (ctx_with [QD_PTR 22, QD_STR ''a''])) = Some 1"
    by (simp add: transport_failure_def pop_order_def ctx_with_def)
  show ?thesis
    using s e t
      C5_column_type_passes_through
        [of "ctx_with [QD_PTR 22, QD_INT 1, QD_FLOAT 7]" 22 1 "[QD_FLOAT 7]" engine_ok 0]
      C5_column_type_passes_through
        [of "ctx_with [QD_PTR 22, QD_STR ''a'']" 0 0 "[]" engine_ok 1]
    by (simp add: ctx_with_def)
qed

section \<open>C6: the order of results and status\<close>

text \<open>
  C6: a fallible primitive (Open, Exec, Prepare, Bind*, Step, Reset, Begin, Commit,
  Rollback) that succeeds, that is returns \<open>0\<close>, leaves \<^verbatim>\<open>OK\<close> (1) on top of the
  stack, under it its result values (the handle the engine made for Open and Prepare,
  \<open>has_row\<close> for Step, none for the others), and under those the stack as it was below
  the operands. Every other primitive (Close, Finalize, the Column* accessors,
  LastInsertRowid, Changes) leaves exactly its result on the stack as it was below the
  operands it read, and no status code: the engine's answer on well-typed operands, the
  default on a transport-level failure, nothing for Close and Finalize. The result values
  and the defaults are of the kinds the signature names.
\<close>

theorem C6_results_then_status:
  "(fallible p \<and> fst (usr_sqlite p env ctx) = 0 \<longrightarrow>
      transport_failure p (st ctx) = None \<and>
      st (snd (usr_sqlite p env ctx)) =
        QD_INT 1 # result_values p env (st ctx) @ drop (length (stack_inputs p)) (st ctx)) \<and>
   (\<not> fallible p \<longrightarrow>
      st (snd (usr_sqlite p env ctx)) =
        (if transport_failure p (st ctx) = None then result_values p env (st ctx)
         else if read_accessor p then [default_value p]
         else []) @ drop (popped p (st ctx)) (st ctx)) \<and>
   (transport_failure p (st ctx) = None \<longrightarrow>
      map kind_of (result_values p env (st ctx)) = stack_outputs p) \<and>
   (read_accessor p \<longrightarrow> [kind_of (default_value p)] = stack_outputs p) \<and>
   (\<not> fallible p \<and> \<not> read_accessor p \<longrightarrow> stack_outputs p = [])"
proof -
  have kinds:
    "(transport_failure p (st ctx) = None \<longrightarrow>
        map kind_of (result_values p env (st ctx)) = stack_outputs p) \<and>
     (read_accessor p \<longrightarrow> [kind_of (default_value p)] = stack_outputs p) \<and>
     (\<not> fallible p \<and> \<not> read_accessor p \<longrightarrow> stack_outputs p = [])"
    using result_values_kinds [of p "st ctx" env] default_value_kind [of p] lenient_outputs [of p]
    by blast
  have stacks:
    "(fallible p \<and> fst (usr_sqlite p env ctx) = 0 \<longrightarrow>
        transport_failure p (st ctx) = None \<and>
        st (snd (usr_sqlite p env ctx)) =
          QD_INT 1 # result_values p env (st ctx) @ drop (length (stack_inputs p)) (st ctx)) \<and>
     (\<not> fallible p \<longrightarrow>
        st (snd (usr_sqlite p env ctx)) =
          (if transport_failure p (st ctx) = None then result_values p env (st ctx)
           else if read_accessor p then [default_value p]
           else []) @ drop (popped p (st ctx)) (st ctx))"
  proof (cases "transport_failure p (st ctx)")
    case None
    then show ?thesis
      using fallible_success_values [of p ctx env] lenient_well_typed_values [of p ctx env]
      by (simp add: popped_def)
  next
    case (Some k)
    have "fst (usr_sqlite p env ctx) = SQLITE_ERR_INVALID_ARG" if "fallible p"
      using that by (simp add: usr_sqlite_mismatch [OF Some] on_mismatch_def invalid_arg_def Let_def)
    then show ?thesis
      using Some lenient_mismatch_values [of p ctx k env]
      by (auto simp: popped_def)
  qed
  from kinds stacks show ?thesis
    by blast
qed

theorem C6_witness_open_and_column_int:
  "fallible Open \<and>
   fst (usr_sqlite Open engine_ok (ctx_with [QD_STR '':memory:'', QD_INT 8])) = 0 \<and>
   result_values Open engine_ok (st (ctx_with [QD_STR '':memory:'', QD_INT 8])) = [QD_PTR 11] \<and>
   st (snd (usr_sqlite Open engine_ok (ctx_with [QD_STR '':memory:'', QD_INT 8]))) =
     [QD_INT 1, QD_PTR 11, QD_INT 8] \<and>
   \<not> fallible Column_int \<and>
   transport_failure Column_int (st (ctx_with [QD_PTR 22, QD_INT 0, QD_INT 8])) = None \<and>
   result_values Column_int engine_ok (st (ctx_with [QD_PTR 22, QD_INT 0, QD_INT 8])) =
     [QD_INT 42] \<and>
   st (snd (usr_sqlite Column_int engine_ok (ctx_with [QD_PTR 22, QD_INT 0, QD_INT 8]))) =
     [QD_INT 42, QD_INT 8] \<and>
   read_accessor Column_int \<and>
   transport_failure Column_int (st (ctx_with [QD_PTR 22, QD_STR ''a'', QD_INT 8])) = Some 1 \<and>
   st (snd (usr_sqlite Column_int engine_ok (ctx_with [QD_PTR 22, QD_STR ''a'', QD_INT 8]))) =
     [QD_INT 0, QD_INT 8] \<and>
   \<not> fallible Close \<and> \<not> read_accessor Close \<and> stack_outputs Close = [] \<and>
   st (snd (usr_sqlite Close engine_ok (ctx_with [QD_PTR 11, QD_INT 8]))) = [QD_INT 8]"
proof -
  have f: "fst (usr_sqlite Open engine_ok (ctx_with [QD_STR '':memory:'', QD_INT 8])) = 0"
    by (simp add: run_defs)
  have r1: "result_values Open engine_ok (st (ctx_with [QD_STR '':memory:'', QD_INT 8])) =
     [QD_PTR 11]"
    by (simp add: result_values_def ctx_with_def engine_ok_def)
  have t2: "transport_failure Column_int (st (ctx_with [QD_PTR 22, QD_INT 0, QD_INT 8])) = None"
    by (simp add: transport_failure_def pop_order_def ctx_with_def)
  have r2: "result_values Column_int engine_ok (st (ctx_with [QD_PTR 22, QD_INT 0, QD_INT 8])) =
     [QD_INT 42]"
    by (simp add: result_values_def ctx_with_def engine_ok_def)
  have t3: "transport_failure Column_int (st (ctx_with [QD_PTR 22, QD_STR ''a'', QD_INT 8])) =
     Some 1"
    by (simp add: transport_failure_def pop_order_def ctx_with_def)
  have a3: "read_accessor Column_int" and a4: "\<not> read_accessor Close"
    by (simp_all add: read_accessor_def)
  have t4: "transport_failure Close (st (ctx_with [QD_PTR 11, QD_INT 8])) = None"
    by (simp add: transport_failure_def pop_order_def ctx_with_def)
  have r4: "result_values Close engine_ok (st (ctx_with [QD_PTR 11, QD_INT 8])) = []"
    by (simp add: result_values_def)
  show ?thesis
    using f r1 t2 r2 t3 a3 a4 t4 r4
      C6_results_then_status [of Open engine_ok "ctx_with [QD_STR '':memory:'', QD_INT 8]"]
      C6_results_then_status [of Column_int engine_ok "ctx_with [QD_PTR 22, QD_INT 0, QD_INT 8]"]
      C6_results_then_status [of Column_int engine_ok
        "ctx_with [QD_PTR 22, QD_STR ''a'', QD_INT 8]"]
      C6_results_then_status [of Close engine_ok "ctx_with [QD_PTR 11, QD_INT 8]"]
    by (simp add: popped_def default_value_def ctx_with_def)
qed

section \<open>C7: accessors never report an error\<close>

lemma accessor_well_typed:
  "read_accessor p \<Longrightarrow> transport_failure p (st ctx) = None \<Longrightarrow>
   error_msg (snd (usr_sqlite p env ctx)) = error_msg ctx \<and>
   (null_answer p env (st ctx) \<longrightarrow>
      take 1 (st (snd (usr_sqlite p env ctx))) = [default_value p])"
  unfolding read_accessor_def
  by (cases p; auto simp: prim_defs aux_defs tf_defs null_answer_def default_value_def
        split: option.split)

text \<open>
  C7, as stated, has an accessor push the default (\<open>0\<close>, \<open>0.0\<close> or the empty string)
  when the column value is absent or \<^verbatim>\<open>NULL\<close>. \<^verbatim>\<open>usr_sqlite_column_type\<close> on a
  statement whose column holds \<^verbatim>\<open>NULL\<close> (the engine answers the type code 5,
  \<^verbatim>\<open>SQLITE_NULL\<close>, and no text) pushes 5, not the default \<open>0\<close>.
\<close>

theorem C7_counterexample_column_type_null:
  "read_accessor Column_type \<and>
   transport_failure Column_type (st (ctx_with [QD_PTR 22, QD_INT 0])) = None \<and>
   sqlite3_column_type engine_null_column 22 0 = 5 \<and>
   sqlite3_column_text engine_null_column 22 0 = None \<and>
   default_value Column_type = QD_INT 0 \<and>
   fst (usr_sqlite Column_type engine_null_column (ctx_with [QD_PTR 22, QD_INT 0])) = 0 \<and>
   st (snd (usr_sqlite Column_type engine_null_column (ctx_with [QD_PTR 22, QD_INT 0]))) =
     [QD_INT 5]"
  by (simp add: run_defs read_accessor_def default_value_def)

text \<open>
  C7 (amended): every invocation of a read accessor (ColumnCount, ColumnName, ColumnType,
  ColumnInt, ColumnFloat, ColumnText) or of LastInsertRowid or Changes, whatever the
  stack, returns \<open>0\<close>, leaves the code and the message of the Error Context as they
  were, and pushes exactly one value, of the kind of its result, onto the stack as it
  was below the operands it read, so no status code. On an operand of the wrong kind or
  an exhausted stack that value is the default: \<open>0\<close>, \<open>0.0\<close> or the empty string. On
  well-typed operands it is the engine's answer: ColumnCount, ColumnType, ColumnInt,
  ColumnFloat, LastInsertRowid and Changes push the engine's number as it is, also for a
  \<^verbatim>\<open>NULL\<close> column (ColumnType then pushes the type code 5); ColumnName and ColumnText
  push the empty string when the engine answers \<^verbatim>\<open>NULL\<close>, and ColumnText also when
  the byte count is not positive or the runtime string cannot be made.
\<close>

theorem C7_accessors_never_fail:
  assumes "read_accessor p"
  shows "fst (usr_sqlite p env ctx) = 0 \<and>
         error_code (snd (usr_sqlite p env ctx)) = error_code ctx \<and>
         error_msg (snd (usr_sqlite p env ctx)) = error_msg ctx \<and>
         map kind_of (take 1 (st (snd (usr_sqlite p env ctx)))) = stack_outputs p \<and>
         drop 1 (st (snd (usr_sqlite p env ctx))) = drop (popped p (st ctx)) (st ctx) \<and>
         (transport_failure p (st ctx) \<noteq> None \<or> null_answer p env (st ctx) \<longrightarrow>
            take 1 (st (snd (usr_sqlite p env ctx))) = [default_value p]) \<and>
         (transport_failure p (st ctx) = None \<longrightarrow>
            take 1 (st (snd (usr_sqlite p env ctx))) = result_values p env (st ctx))"
proof -
  have nf: "\<not> fallible p" and len: "length (stack_outputs p) = 1"
    and nn: "\<not> native_failure p env (st ctx)" and nc: "p \<noteq> Close" "p \<noteq> Finalize"
    using assms unfolding read_accessor_def by (auto simp: native_failure_def)
  show ?thesis
  proof (cases "transport_failure p (st ctx)")
    case None
    from accessor_one_value [OF assms None, of env]
    obtain v where v: "result_values p env (st ctx) = [v]"
      by (cases "result_values p env (st ctx)") auto
    have "[kind_of v] = stack_outputs p"
      using result_values_kinds [OF None, of env] v by simp
    then show ?thesis
      using None nf nn v accessor_well_typed [OF assms None, of env]
        lenient_well_typed_values [OF nf None, of env]
      by (simp add: well_typed_return well_typed_error_code popped_def)
  next
    case (Some k)
    have "usr_sqlite p env ctx = (0, ctx\<lparr>st := default_value p # drop (Suc k) (st ctx)\<rparr>)"
      using nf nc by (simp add: usr_sqlite_mismatch [OF Some] on_mismatch_def Let_def)
    moreover have "kind_of (default_value p) # [] = stack_outputs p"
      using assms unfolding read_accessor_def by (auto simp: default_value_def)
    ultimately show ?thesis
      using Some by (simp add: popped_def)
  qed
qed

theorem C7_witness_column_text_and_type:
  "read_accessor Column_text \<and>
   fst (usr_sqlite Column_text engine_failing
     ((ctx_with [QD_PTR 22, QD_INT 0, QD_INT 8])\<lparr>error_code := 6\<rparr>)) = 0 \<and>
   error_code (snd (usr_sqlite Column_text engine_failing
     ((ctx_with [QD_PTR 22, QD_INT 0, QD_INT 8])\<lparr>error_code := 6\<rparr>))) = 6 \<and>
   null_answer Column_text engine_failing
     (st ((ctx_with [QD_PTR 22, QD_INT 0, QD_INT 8])\<lparr>error_code := 6\<rparr>)) \<and>
   st (snd (usr_sqlite Column_text engine_failing
     ((ctx_with [QD_PTR 22, QD_INT 0, QD_INT 8])\<lparr>error_code := 6\<rparr>))) = [QD_STR [], QD_INT 8] \<and>
   transport_failure Column_text (st (ctx_with [QD_INT 8])) = Some 0 \<and>
   st (snd (usr_sqlite Column_text engine_ok (ctx_with [QD_INT 8]))) = [QD_STR []] \<and>
   read_accessor Column_type \<and>
   transport_failure Column_type (st (ctx_with [QD_PTR 22, QD_INT 0, QD_INT 8])) = None \<and>
   result_values Column_type engine_null_column (st (ctx_with [QD_PTR 22, QD_INT 0, QD_INT 8])) =
     [QD_INT 5] \<and>
   st (snd (usr_sqlite Column_type engine_null_column (ctx_with [QD_PTR 22, QD_INT 0, QD_INT 8]))) =
     [QD_INT 5, QD_INT 8]"
proof -
  have a: "read_accessor Column_text" and b: "read_accessor Column_type"
    by (simp_all add: read_accessor_def)
  have n: "null_answer Column_text engine_failing
     (st ((ctx_with [QD_PTR 22, QD_INT 0, QD_INT 8])\<lparr>error_code := 6\<rparr>))"
    by (simp add: null_answer_def ctx_with_def engine_failing_def)
  have t: "transport_failure Column_text (st (ctx_with [QD_INT 8])) = Some 0"
    by (simp add: transport_failure_def pop_order_def ctx_with_def)
  have s1: "st (snd (usr_sqlite Column_text engine_failing
     ((ctx_with [QD_PTR 22, QD_INT 0, QD_INT 8])\<lparr>error_code := 6\<rparr>))) = [QD_STR [], QD_INT 8]"
    by (simp add: run_defs)
  have s2: "st (snd (usr_sqlite Column_text engine_ok (ctx_with [QD_INT 8]))) = [QD_STR []]"
    by (simp add: run_defs)
  have t3: "transport_failure Column_type (st (ctx_with [QD_PTR 22, QD_INT 0, QD_INT 8])) = None"
    by (simp add: transport_failure_def pop_order_def ctx_with_def)
  have r3: "result_values Column_type engine_null_column
     (st (ctx_with [QD_PTR 22, QD_INT 0, QD_INT 8])) = [QD_INT 5]"
    by (simp add: result_values_def ctx_with_def engine_null_column_def engine_ok_def)
  have s3: "drop (popped Column_type (st (ctx_with [QD_PTR 22, QD_INT 0, QD_INT 8])))
     (st (ctx_with [QD_PTR 22, QD_INT 0, QD_INT 8])) = [QD_INT 8]"
    using t3 by (simp add: popped_def ctx_with_def)
  have s4: "st (snd (usr_sqlite Column_type engine_null_column
     (ctx_with [QD_PTR 22, QD_INT 0, QD_INT 8]))) = [QD_INT 5, QD_INT 8]"
    using t3 r3 s3
      C7_accessors_never_fail [OF b, of engine_null_column
        "ctx_with [QD_PTR 22, QD_INT 0, QD_INT 8]"]
    by (metis append_take_drop_id append_Cons append_Nil)
  show ?thesis
    using a b n t s1 s2 t3 r3 s4
      C7_accessors_never_fail [OF a, of engine_failing
        "(ctx_with [QD_PTR 22, QD_INT 0, QD_INT 8])\<lparr>error_code := 6\<rparr>"]
      C7_accessors_never_fail [OF a, of engine_ok "ctx_with [QD_INT 8]"]
    by (simp add: ctx_with_def)
qed

section \<open>C8: the cleanup primitives\<close>

lemma close_log:
  "native_log (snd (usr_sqlite_close env ctx)) =
     native_log ctx @
       (case st ctx of QD_PTR db # _ \<Rightarrow> if db \<noteq> 0 then [Call_close db] else [] | _ \<Rightarrow> [])"
  by (simp add: usr_sqlite_close_def pop_ptr_def qd_stack_pop_def log_call_def
        set_error_msg_def split: list.split qd_stack_element.split)

lemma cleanup_well_typed:
  "p = Close \<or> p = Finalize \<Longrightarrow> transport_failure p (st ctx) = None \<Longrightarrow>
   st (snd (usr_sqlite p env ctx)) = drop 1 (st ctx)"
  by (auto simp: prim_defs aux_defs tf_defs)

text \<open>
  C8: for every stack, Close and Finalize return \<open>0\<close>, leave the error code alone and
  push nothing: the stack afterwards is the old one less the one operand read (if there
  was one). Finalize on an operand that is not a pointer, or on an empty stack, changes
  nothing else: the Error Context and the log of engine calls are as before. Close calls
  the engine's \<^verbatim>\<open>sqlite3_close\<close> exactly when the operand read is a pointer that is
  not null, and makes no engine call otherwise.
\<close>

theorem C8_cleanup_never_fails:
  "(p = Close \<or> p = Finalize \<longrightarrow>
      fst (usr_sqlite p env ctx) = 0 \<and>
      st (snd (usr_sqlite p env ctx)) = drop 1 (st ctx) \<and>
      error_code (snd (usr_sqlite p env ctx)) = error_code ctx) \<and>
   (transport_failure Finalize (st ctx) \<noteq> None \<longrightarrow>
      snd (usr_sqlite Finalize env ctx) = ctx\<lparr>st := drop 1 (st ctx)\<rparr>) \<and>
   native_log (snd (usr_sqlite Close env ctx)) =
     native_log ctx @
       (case st ctx of QD_PTR db # _ \<Rightarrow> if db \<noteq> 0 then [Call_close db] else [] | _ \<Rightarrow> [])"
proof -
  have k0: "k = 0" if "transport_failure q (st ctx) = Some k" "q = Close \<or> q = Finalize" for q k
    using that by (auto simp: tf_defs)
  have a: "fst (usr_sqlite p env ctx) = 0 \<and>
      st (snd (usr_sqlite p env ctx)) = drop 1 (st ctx) \<and>
      error_code (snd (usr_sqlite p env ctx)) = error_code ctx" if c: "p = Close \<or> p = Finalize"
  proof (cases "transport_failure p (st ctx)")
    case None
    have "\<not> native_failure p env (st ctx)"
      using c by (auto simp: native_failure_def)
    then show ?thesis
      using None cleanup_well_typed [OF c None, of env]
      by (simp add: well_typed_return well_typed_error_code)
  next
    case (Some k)
    then show ?thesis
      using c k0 [OF Some c]
      by (auto simp: usr_sqlite_mismatch [OF Some] on_mismatch_def set_error_msg_def Let_def)
  qed
  have b: "snd (usr_sqlite Finalize env ctx) = ctx\<lparr>st := drop 1 (st ctx)\<rparr>"
    if "transport_failure Finalize (st ctx) = Some k" for k
    using that k0 [OF that] usr_sqlite_mismatch [OF that, of env]
    by (simp add: on_mismatch_def Let_def)
  from a b close_log [of env ctx] show ?thesis
    by auto
qed

theorem C8_witness_close_and_finalize:
  "fst (usr_sqlite Close engine_ok (ctx_with [QD_PTR 11, QD_INT 8])) = 0 \<and>
   st (snd (usr_sqlite Close engine_ok (ctx_with [QD_PTR 11, QD_INT 8]))) = [QD_INT 8] \<and>
   native_log (snd (usr_sqlite Close engine_ok (ctx_with [QD_PTR 11, QD_INT 8]))) = [Call_close 11] \<and>
   native_log (snd (usr_sqlite Close engine_ok (ctx_with [QD_PTR 0, QD_INT 8]))) = [] \<and>
   transport_failure Finalize (st (ctx_with [QD_STR ''stmt'', QD_INT 8])) \<noteq> None \<and>
   snd (usr_sqlite Finalize engine_ok (ctx_with [QD_STR ''stmt'', QD_INT 8])) = ctx_with [QD_INT 8]"
proof -
  have t: "transport_failure Finalize (st (ctx_with [QD_STR ''stmt'', QD_INT 8])) \<noteq> None"
    by (simp add: transport_failure_def pop_order_def ctx_with_def)
  show ?thesis
    using t
      C8_cleanup_never_fails [of Close engine_ok "ctx_with [QD_PTR 11, QD_INT 8]"]
      C8_cleanup_never_fails [of Close engine_ok "ctx_with [QD_PTR 0, QD_INT 8]"]
      C8_cleanup_never_fails [of Finalize engine_ok "ctx_with [QD_STR ''stmt'', QD_INT 8]"]
    by (simp add: ctx_with_def)
qed

section \<open>C9: the order of the pops\<close>



end
